theory Spec2Isabelle
  imports Complex_Main
begin

section \<open>Status polling loops of the scale-to-zero notebook\<close>

text \<open>
  The notebook \<^verbatim>\<open>llama3-8b-scale-to-zero-autoscaling.ipynb\<close> waits three times with
  the same loop (for the endpoint after \<^verbatim>\<open>create_endpoint\<close>, and twice for the
  inference component):
  \<^verbatim>\<open>
  while True:
      desc = sagemaker_client.describe_endpoint(EndpointName=endpoint_name)
      status = desc["EndpointStatus"]
      print(status)
      sys.stdout.flush()
      if status in ["InService", "Failed"]:
          break
      time.sleep(30)
  \<close>
  The remote platform is the sequence of answers of the describe call: \<open>describe i\<close> is the
  status field of the answer to call number \<open>i\<close> (counted from 0). The state of the cell is
  the number of describe calls made, the lines printed, and the arguments of the
  \<^verbatim>\<open>time.sleep\<close> calls in the order they were issued.
\<close>

record poll_state =
  calls :: nat
  printed :: "string list"
  sleeps :: "nat list"

definition poll_init :: poll_state where
  "poll_init = \<lparr>calls = 0, printed = [], sleeps = []\<rparr>"

definition is_terminal :: "string \<Rightarrow> bool" where
  "is_terminal status = (status \<in> set [''InService'', ''Failed''])"

partial_function (option) poll_loop :: "(nat \<Rightarrow> string) \<Rightarrow> poll_state \<Rightarrow> poll_state option" where
  "poll_loop describe s =
     (let status = describe (calls s);
          s1 = s\<lparr>calls := Suc (calls s), printed := printed s @ [status]\<rparr>
      in if is_terminal status then Some s1
         else poll_loop describe (s1\<lparr>sleeps := sleeps s1 @ [30]\<rparr>))"

text \<open>The answers of the two describe calls, reduced to the field the loops read.\<close>

record endpoint_description =
  EndpointStatus :: string

record inference_component_description =
  InferenceComponentStatus :: string

definition wait_endpoint_loop :: "(nat \<Rightarrow> endpoint_description) \<Rightarrow> poll_state option" where
  "wait_endpoint_loop describe_endpoint =
     poll_loop (\<lambda>i. EndpointStatus (describe_endpoint i)) poll_init"

definition wait_inference_component_loop ::
  "(nat \<Rightarrow> inference_component_description) \<Rightarrow> poll_state option" where
  "wait_inference_component_loop describe_inference_component =
     poll_loop (\<lambda>i. InferenceComponentStatus (describe_inference_component i)) poll_init"

text \<open>The state in which the loop leaves when observation number \<open>k\<close> is the first
  terminal one: \<open>k + 1\<close> describe calls, every status printed, \<open>k\<close> sleeps.\<close>

definition exit_state :: "(nat \<Rightarrow> string) \<Rightarrow> nat \<Rightarrow> poll_state" where
  "exit_state describe k =
     \<lparr>calls = Suc k, printed = map describe [0..<Suc k], sleeps = replicate k 30\<rparr>"

definition first_terminal :: "(nat \<Rightarrow> string) \<Rightarrow> nat \<Rightarrow> bool" where
  "first_terminal describe k =
     (is_terminal (describe k) \<and> (\<forall>j<k. \<not> is_terminal (describe j)))"

section \<open>Exceptions\<close>

text \<open>
  The exceptions the notebooks' operations raise, as values. All of them are subclasses
  of Python's \<^verbatim>\<open>Exception\<close>; \<^verbatim>\<open>ObjectNotFoundException\<close> is the class of the
  Application Auto Scaling client, \<^verbatim>\<open>ResourceNotFoundException\<close> the one of the
  CloudWatch client.
\<close>

datatype pyexc =
    ObjectNotFoundException
  | ResourceNotFoundException
  | JSONDecodeError
  | ValueError string
  | KeyError string
  | TypeError
  | IndexError
  | AttributeError
  | UnicodeDecodeError
  | NameError string
  | ClientError string
  | OSError string

section \<open>Autoscaling set-up and clean-up cells of the scale-to-zero notebook\<close>

text \<open>
  The cells speak to Application Auto Scaling and CloudWatch. A scaling policy lives
  under a policy name and the triple of service namespace, resource id and scalable
  dimension. The notebook's variables are functions of the inference component's name:
  \<^verbatim>\<open>
  resource_id = f"inference-component/{inference_component_name}"
  service_namespace = "sagemaker"
  scalable_dimension = "sagemaker:inference-component:DesiredCopyCount"
  step_scaling_policy_name = f"Step-scaling-policy-llama3-8b-scale-to-zero-aas-{inference_component_name}"
  step_scaling_alarm_name = f"step-scaling-alarm-llama3-8b-scale-to-zero-aas-{inference_component_name}"
  \<close>
\<close>

record scaling_key =
  ServiceNamespace :: string
  ResourceId :: string
  ScalableDimension :: string

datatype request =
    RegisterScalableTarget scaling_key nat nat
  | PutScalingPolicy string string scaling_key
  | PutMetricAlarm string
  | DeregisterScalableTarget scaling_key
  | DeleteAlarms "string list"
  | DeleteScalingPolicy string scaling_key

definition resource_id :: "string \<Rightarrow> string" where
  "resource_id inference_component_name = ''inference-component/'' @ inference_component_name"

definition service_namespace :: string where
  "service_namespace = ''sagemaker''"

definition scalable_dimension :: string where
  "scalable_dimension = ''sagemaker:inference-component:DesiredCopyCount''"

definition target_tracking_policy_name :: "string \<Rightarrow> string" where
  "target_tracking_policy_name inference_component_name =
     ''Target-tracking-policy-llama3-8b-scale-to-zero-aas-'' @ inference_component_name"

definition step_scaling_policy_name :: "string \<Rightarrow> string" where
  "step_scaling_policy_name inference_component_name =
     ''Step-scaling-policy-llama3-8b-scale-to-zero-aas-'' @ inference_component_name"

definition step_scaling_alarm_name :: "string \<Rightarrow> string" where
  "step_scaling_alarm_name inference_component_name =
     ''step-scaling-alarm-llama3-8b-scale-to-zero-aas-'' @ inference_component_name"

text \<open>The set-up cells: \<^verbatim>\<open>register_scalable_target\<close> with capacities 0 and 8, the
  target tracking policy, the step scaling policy and its alarm.\<close>

definition registered_key :: "string \<Rightarrow> scaling_key" where
  "registered_key ic =
     \<lparr>ServiceNamespace = service_namespace, ResourceId = resource_id ic,
      ScalableDimension = scalable_dimension\<rparr>"

definition register_scalable_target :: "string \<Rightarrow> request" where
  "register_scalable_target ic = RegisterScalableTarget (registered_key ic) 0 8"

definition put_target_tracking_policy :: "string \<Rightarrow> request" where
  "put_target_tracking_policy ic =
     PutScalingPolicy (target_tracking_policy_name ic) ''TargetTrackingScaling''
       \<lparr>ServiceNamespace = service_namespace, ResourceId = resource_id ic,
        ScalableDimension = scalable_dimension\<rparr>"

definition step_policy_key :: "string \<Rightarrow> scaling_key" where
  "step_policy_key ic =
     \<lparr>ServiceNamespace = service_namespace, ResourceId = resource_id ic,
      ScalableDimension = scalable_dimension\<rparr>"

definition put_step_scaling_policy :: "string \<Rightarrow> request" where
  "put_step_scaling_policy ic =
     PutScalingPolicy (step_scaling_policy_name ic) ''StepScaling'' (step_policy_key ic)"

definition put_metric_alarm :: "string \<Rightarrow> request" where
  "put_metric_alarm ic = PutMetricAlarm (step_scaling_alarm_name ic)"

text \<open>
  The clean-up cell. Its three calls, with the arguments as the cell writes them:
  \<^verbatim>\<open>
  aas_client.deregister_scalable_target(
      ServiceNamespace="sagemaker", ResourceId=resource_id,
      ScalableDimension=scalable_dimension)
  cloudwatch_client.delete_alarms(AlarmNames=[step_scaling_alarm_name])
  aas_client.delete_scaling_policy(
      PolicyName=step_scaling_policy_name, ServiceNamespace="sagemaker",
      ResourceId=resource_id, ScalableDimension="sagemaker:variant:DesiredInstanceCount")
  \<close>
\<close>

definition cleanup_deregister :: "string \<Rightarrow> request" where
  "cleanup_deregister ic =
     DeregisterScalableTarget
       \<lparr>ServiceNamespace = ''sagemaker'', ResourceId = resource_id ic,
        ScalableDimension = scalable_dimension\<rparr>"

definition cleanup_delete_alarms :: "string \<Rightarrow> request" where
  "cleanup_delete_alarms ic = DeleteAlarms [step_scaling_alarm_name ic]"

definition cleanup_policy_key :: "string \<Rightarrow> scaling_key" where
  "cleanup_policy_key ic =
     \<lparr>ServiceNamespace = ''sagemaker'', ResourceId = resource_id ic,
      ScalableDimension = ''sagemaker:variant:DesiredInstanceCount''\<rparr>"

definition cleanup_delete_scaling_policy :: "string \<Rightarrow> request" where
  "cleanup_delete_scaling_policy ic =
     DeleteScalingPolicy (step_scaling_policy_name ic) (cleanup_policy_key ic)"

text \<open>The triple a request to Application Auto Scaling carries.\<close>

fun key_of :: "request \<Rightarrow> scaling_key option" where
  "key_of (RegisterScalableTarget k lo hi) = Some k"
| "key_of (PutScalingPolicy n ty k) = Some k"
| "key_of (DeregisterScalableTarget k) = Some k"
| "key_of (DeleteScalingPolicy n k) = Some k"
| "key_of (PutMetricAlarm n) = None"
| "key_of (DeleteAlarms ns) = None"

text \<open>
  Each call sits in its own \<^verbatim>\<open>try\<close> with one \<^verbatim>\<open>except\<close> clause, and a line of dashes
  is printed between the blocks:
  \<^verbatim>\<open>
  try:
      aas_client.deregister_scalable_target(...)
      print(f"Scalable target for [b]{resource_id}[/b] deregistered. ...")
  except aas_client.exceptions.ObjectNotFoundException:
      print(f"Scalable target for [b]{resource_id}[/b] not found!.")
  print("---" * 10)
  try:
      cloudwatch_client.delete_alarms(AlarmNames=[step_scaling_alarm_name])
      print(f"Deleted CloudWatch step scaling scale-out alarm [b]{step_scaling_alarm_name} ...")
  except cloudwatch_client.exceptions.ResourceNotFoundException:
      print(f"CloudWatch scale-out alarm [b]{step_scaling_alarm_name}[/b] not found.")
  print("---" * 10)
  try:
      aas_client.delete_scaling_policy(...)
      print(f"Deleted scaling policy [i green]{step_scaling_policy_name} ...")
  except aas_client.exceptions.ObjectNotFoundException:
      print(f"Scaling policy [i]{step_scaling_policy_name}[/i] not found.")
  \<close>
  The remote services are a function \<open>aws\<close> from a request to the exception it raises,
  if any. A printed line is a message kind with the variable interpolated into it. The
  state of the cell is the list of requests sent and the lines printed; an exception
  that leaves the cell carries the state reached.
\<close>

datatype message =
    TargetDeregistered string
  | TargetNotFound string
  | Dashes
  | AlarmDeleted string
  | AlarmNotFound string
  | PolicyDeleted string
  | PolicyNotFound string

record cell_state =
  attempted :: "request list"
  shown :: "message list"

definition cell_init :: cell_state where
  "cell_init = \<lparr>attempted = [], shown = []\<rparr>"

definition try_call ::
  "(request \<Rightarrow> pyexc option) \<Rightarrow> request \<Rightarrow> pyexc \<Rightarrow> message \<Rightarrow> message \<Rightarrow>
     cell_state \<Rightarrow> pyexc \<times> cell_state + cell_state" where
  "try_call aws req handled done_msg not_found_msg st =
     (let st1 = st\<lparr>attempted := attempted st @ [req]\<rparr> in
      case aws req of
        None \<Rightarrow> Inr (st1\<lparr>shown := shown st1 @ [done_msg]\<rparr>)
      | Some e \<Rightarrow>
          if e = handled then Inr (st1\<lparr>shown := shown st1 @ [not_found_msg]\<rparr>)
          else Inl (e, st1))"

definition print_dashes :: "cell_state \<Rightarrow> cell_state" where
  "print_dashes st = st\<lparr>shown := shown st @ [Dashes]\<rparr>"

definition autoscaling_cleanup_cell ::
  "(request \<Rightarrow> pyexc option) \<Rightarrow> string \<Rightarrow> pyexc \<times> cell_state + cell_state" where
  "autoscaling_cleanup_cell aws ic =
     (case try_call aws (cleanup_deregister ic) ObjectNotFoundException
             (TargetDeregistered (resource_id ic)) (TargetNotFound (resource_id ic)) cell_init of
        Inl x \<Rightarrow> Inl x
      | Inr st1 \<Rightarrow>
     (case try_call aws (cleanup_delete_alarms ic) ResourceNotFoundException
             (AlarmDeleted (step_scaling_alarm_name ic))
             (AlarmNotFound (step_scaling_alarm_name ic)) (print_dashes st1) of
        Inl x \<Rightarrow> Inl x
      | Inr st2 \<Rightarrow>
        try_call aws (cleanup_delete_scaling_policy ic) ObjectNotFoundException
             (PolicyDeleted (step_scaling_policy_name ic))
             (PolicyNotFound (step_scaling_policy_name ic)) (print_dashes st2)))"

text \<open>What a guarded call prints when it does not leave the cell.\<close>

definition reply :: "pyexc option \<Rightarrow> message \<Rightarrow> message \<Rightarrow> message" where
  "reply outcome done_msg not_found_msg =
     (case outcome of None \<Rightarrow> done_msg | Some e \<Rightarrow> not_found_msg)"


section \<open>JSON values and the Python operations the notebooks apply to them\<close>

text \<open>
  What \<^verbatim>\<open>json.loads\<close> and the \<^verbatim>\<open>jsonlines\<close> reader return. An object is a dictionary
  with string keys, kept as an association list with distinct keys in insertion order.
  A number is the rational its literal denotes; the operations below treat every
  number alike.
\<close>

datatype json =
    JNull
  | JBool bool
  | JNum rat
  | JStr string
  | JArr "json list"
  | JObj "(string \<times> json) list"

text \<open>\<^verbatim>\<open>s.find(sub)\<close>: the lowest index at which \<open>sub\<close> occurs in \<open>s\<close>; \<open>None\<close> stands
  for Python's \<open>-1\<close>. \<^verbatim>\<open>sub in s\<close> holds exactly when the index exists.\<close>

definition startswith :: "string \<Rightarrow> string \<Rightarrow> bool" where
  "startswith s pre = (take (length pre) s = pre)"

fun find_sub :: "string \<Rightarrow> string \<Rightarrow> nat option" where
  "find_sub [] sub = (if sub = [] then Some 0 else None)"
| "find_sub (c # cs) sub =
     (if startswith (c # cs) sub then Some 0 else map_option Suc (find_sub cs sub))"

definition py_slice :: "string \<Rightarrow> nat \<Rightarrow> nat \<Rightarrow> string" where
  \<comment> \<open>\<^verbatim>\<open>s[i:j]\<close> for non-negative \<open>i\<close> and \<open>j\<close>; empty when \<open>j \<le> i\<close>.\<close>
  "py_slice s i j = drop i (take j s)"

text \<open>\<^verbatim>\<open>key in x\<close> for a string key: key membership in a dictionary, substring test in a
  string, element test in a list; the other values are not iterable.\<close>

fun py_contains :: "string \<Rightarrow> json \<Rightarrow> pyexc + bool" where
  "py_contains k (JObj kvs) = Inr (map_of kvs k \<noteq> None)"
| "py_contains k (JStr s) = Inr (find_sub s k \<noteq> None)"
| "py_contains k (JArr xs) = Inr (JStr k \<in> set xs)"
| "py_contains k JNull = Inl TypeError"
| "py_contains k (JBool b) = Inl TypeError"
| "py_contains k (JNum n) = Inl TypeError"

text \<open>\<^verbatim>\<open>x[key]\<close> for a string key: a missing key raises \<^verbatim>\<open>KeyError\<close>; a string or a list
  wants integer indices, the other values are not subscriptable.\<close>

fun py_getitem :: "json \<Rightarrow> string \<Rightarrow> pyexc + json" where
  "py_getitem (JObj kvs) k = (case map_of kvs k of None \<Rightarrow> Inl (KeyError k) | Some v \<Rightarrow> Inr v)"
| "py_getitem (JStr s) k = Inl TypeError"
| "py_getitem (JArr xs) k = Inl TypeError"
| "py_getitem JNull k = Inl TypeError"
| "py_getitem (JBool b) k = Inl TypeError"
| "py_getitem (JNum n) k = Inl TypeError"

text \<open>\<^verbatim>\<open>x[0]\<close>: the first element of a list or the first character of a string; an object
  has no key \<open>0\<close>, its keys being strings.\<close>

fun py_first :: "json \<Rightarrow> pyexc + json" where
  "py_first (JArr []) = Inl IndexError"
| "py_first (JArr (x # xs)) = Inr x"
| "py_first (JStr []) = Inl IndexError"
| "py_first (JStr (c # cs)) = Inr (JStr [c])"
| "py_first (JObj kvs) = Inl (KeyError ''0'')"
| "py_first JNull = Inl TypeError"
| "py_first (JBool b) = Inl TypeError"
| "py_first (JNum n) = Inl TypeError"

text \<open>\<^verbatim>\<open>x.get(key, default)\<close>: only a dictionary has the method.\<close>

fun py_get :: "json \<Rightarrow> string \<Rightarrow> json \<Rightarrow> pyexc + json" where
  "py_get (JObj kvs) k d = Inr (case map_of kvs k of None \<Rightarrow> d | Some v \<Rightarrow> v)"
| "py_get (JStr s) k d = Inl AttributeError"
| "py_get (JArr xs) k d = Inl AttributeError"
| "py_get JNull k d = Inl AttributeError"
| "py_get (JBool b) k d = Inl AttributeError"
| "py_get (JNum n) k d = Inl AttributeError"

text \<open>\<^verbatim>\<open>x[key] = v\<close> for a string key: a dictionary replaces the value of a present key in
  place and appends a new key at the end.\<close>

fun dict_set :: "string \<Rightarrow> json \<Rightarrow> (string \<times> json) list \<Rightarrow> (string \<times> json) list" where
  "dict_set k v [] = [(k, v)]"
| "dict_set k v ((k', v') # kvs) =
     (if k' = k then (k, v) # kvs else (k', v') # dict_set k v kvs)"

fun py_setitem :: "json \<Rightarrow> string \<Rightarrow> json \<Rightarrow> pyexc + json" where
  "py_setitem (JObj kvs) k v = Inr (JObj (dict_set k v kvs))"
| "py_setitem (JStr s) k v = Inl TypeError"
| "py_setitem (JArr xs) k v = Inl TypeError"
| "py_setitem JNull k v = Inl TypeError"
| "py_setitem (JBool b) k v = Inl TypeError"
| "py_setitem (JNum n) k v = Inl TypeError"

text \<open>\<^verbatim>\<open>len(x)\<close> and the truth value of \<open>x\<close>.\<close>

fun py_len :: "json \<Rightarrow> pyexc + nat" where
  "py_len (JStr s) = Inr (length s)"
| "py_len (JArr xs) = Inr (length xs)"
| "py_len (JObj kvs) = Inr (length kvs)"
| "py_len JNull = Inl TypeError"
| "py_len (JBool b) = Inl TypeError"
| "py_len (JNum n) = Inl TypeError"

fun truthy :: "json \<Rightarrow> bool" where
  "truthy JNull = False"
| "truthy (JBool b) = b"
| "truthy (JNum n) = (n \<noteq> 0)"
| "truthy (JStr s) = (s \<noteq> [])"
| "truthy (JArr xs) = (xs \<noteq> [])"
| "truthy (JObj kvs) = (kvs \<noteq> [])"

text \<open>
  The parts of the world the cells call into: \<^verbatim>\<open>json.loads\<close> on a string,
  \<^verbatim>\<open>bytes.decode\<close> on the bytes of a payload part, and the runtime client's
  \<^verbatim>\<open>invoke_endpoint\<close>, which answers an endpoint name and a payload with the text of
  the response body. Each returns its result or the exception it raises.
\<close>

record world =
  loads :: "string \<Rightarrow> pyexc + json"
  decode :: "string \<Rightarrow> pyexc + string"
  invoke_endpoint :: "string \<Rightarrow> json \<Rightarrow> pyexc + string"

section \<open>The evaluation notebook: \<^verbatim>\<open>create_payload\<close> and \<^verbatim>\<open>create_eval_files\<close>\<close>

text \<open>
  \<^verbatim>\<open>
  def create_payload(prompt: str, parameters: dict = {"max_new_tokens": 128, "top_p": 0.9,
                                                       "temperature": 0.6}) -> dict:
      if len(prompt) == 0:
          raise ValueError("Please provide a non-empty prompt.")
      return {"inputs": prompt, "parameters": parameters}
  \<close>
\<close>

definition default_parameters :: json where
  "default_parameters =
     JObj [(''max_new_tokens'', JNum 128), (''top_p'', JNum (9 / 10)),
           (''temperature'', JNum (6 / 10))]"

definition create_payload :: "json \<Rightarrow> pyexc + json" where
  "create_payload prompt =
     (case py_len prompt of
        Inl e \<Rightarrow> Inl e
      | Inr n \<Rightarrow>
          if n = 0 then Inl (ValueError ''Please provide a non-empty prompt.'')
          else Inr (JObj [(''inputs'', prompt), (''parameters'', default_parameters)]))"

text \<open>
  \<^verbatim>\<open>
  def create_eval_files(endpoint_name: str, model_outputs_file: str,
                        input_file: str = "trex_sample_subset.jsonl") -> str:
      try:
          with jsonlines.open(input_file) as input_fh, \
               jsonlines.open(model_outputs_file, "w") as output_fh:
              for line in input_fh:
                  if "question" in line:
                      question = line["question"]
                      payload = create_payload(question)
                      response = runtime_client.invoke_endpoint(EndpointName=endpoint_name,
                                     Body=json.dumps(payload), ContentType=content_type)
                      model_output = json.loads(response['Body'].read().decode())['generated_text']
                      line["model_output"] = model_output
                      output_fh.write(line)
      except Exception as e:
              print(f"An error occurred: {e}")
      print(f"Created Model Outputs File: {model_outputs_file}")
  \<close>
  The body of the \<^verbatim>\<open>for\<close> loop, for one line: the line to write, if any, or the
  exception raised.
\<close>

definition eval_line :: "world \<Rightarrow> string \<Rightarrow> json \<Rightarrow> pyexc + json option" where
  "eval_line w endpoint_name line =
     (case py_contains ''question'' line of
        Inl e \<Rightarrow> Inl e
      | Inr False \<Rightarrow> Inr None
      | Inr True \<Rightarrow>
     (case py_getitem line ''question'' of
        Inl e \<Rightarrow> Inl e
      | Inr question \<Rightarrow>
     (case create_payload question of
        Inl e \<Rightarrow> Inl e
      | Inr payload \<Rightarrow>
     (case invoke_endpoint w endpoint_name payload of
        Inl e \<Rightarrow> Inl e
      | Inr body \<Rightarrow>
     (case loads w body of
        Inl e \<Rightarrow> Inl e
      | Inr answer \<Rightarrow>
     (case py_getitem answer ''generated_text'' of
        Inl e \<Rightarrow> Inl e
      | Inr model_output \<Rightarrow>
     (case py_setitem line ''model_output'' model_output of
        Inl e \<Rightarrow> Inl e
      | Inr line' \<Rightarrow> Inr (Some line'))))))))"

text \<open>The \<^verbatim>\<open>for\<close> loop over the reader. An entry \<open>Inl e\<close> of the input is a line on which
  the reader raises \<open>e\<close>. The result is the exception that ended the loop, if any, and
  the lines written up to then.\<close>

fun eval_lines ::
  "world \<Rightarrow> string \<Rightarrow> (pyexc + json) list \<Rightarrow> json list \<Rightarrow> pyexc option \<times> json list" where
  "eval_lines w endpoint_name [] written = (None, written)"
| "eval_lines w endpoint_name (Inl e # rest) written = (Some e, written)"
| "eval_lines w endpoint_name (Inr line # rest) written =
     (case eval_line w endpoint_name line of
        Inl e \<Rightarrow> (Some e, written)
      | Inr None \<Rightarrow> eval_lines w endpoint_name rest written
      | Inr (Some line') \<Rightarrow> eval_lines w endpoint_name rest (written @ [line']))"

text \<open>
  A value a Python call returns, the two lines the function prints, and the files:
  a map from a file name to the lines of the file. The \<^verbatim>\<open>with\<close> statement opens the
  input first, which raises when the file is missing, and then the output for writing,
  which leaves it empty; the loop reads the input only after that. So when both names
  are the same file the loop finds no line. The function has no \<^verbatim>\<open>return\<close> statement,
  so a call that completes evaluates to \<^verbatim>\<open>None\<close>.
\<close>

datatype pyval = PyNone | PyStr string

datatype eval_message = ErrorOccurred pyexc | CreatedModelOutputsFile string

record eval_result =
  returned :: pyval
  printed_eval :: "eval_message list"
  files :: "string \<rightharpoonup> (pyexc + json) list"

definition lines_of :: "(string \<rightharpoonup> (pyexc + json) list) \<Rightarrow> string \<Rightarrow> (pyexc + json) list" where
  "lines_of fs name = (case fs name of None \<Rightarrow> [] | Some ls \<Rightarrow> ls)"

definition create_eval_files ::
  "world \<Rightarrow> (string \<rightharpoonup> (pyexc + json) list) \<Rightarrow> string \<Rightarrow> string \<Rightarrow> string \<Rightarrow> eval_result" where
  "create_eval_files w fs endpoint_name model_outputs_file input_file =
     (case fs input_file of
        None \<Rightarrow>
          \<lparr>returned = PyNone,
           printed_eval = [ErrorOccurred (OSError input_file),
                           CreatedModelOutputsFile model_outputs_file],
           files = fs\<rparr>
      | Some old_lines \<Rightarrow>
          (let fs1 = fs(model_outputs_file \<mapsto> []) in
           case eval_lines w endpoint_name (lines_of fs1 input_file) [] of
             (raised, written) \<Rightarrow>
               \<lparr>returned = PyNone,
                printed_eval =
                  (case raised of None \<Rightarrow> [] | Some e \<Rightarrow> [ErrorOccurred e]) @
                  [CreatedModelOutputsFile model_outputs_file],
                files = fs1(model_outputs_file \<mapsto> map Inr written)\<rparr>))"

text \<open>
  The last two statements of the cell:
  \<^verbatim>\<open>
  quantized_model_output_file = create_eval_files(
      endpoint_name = quantized_predictor.endpoint_name,
      model_outputs_file = "quantized_model_outputs.jsonl")
  base_model_output_file = create_eval_files(
      endpoint_name = base_predictor.endpoint_name,
      model_outputs_file = "base_model_outputs.jsonl")
  \<close>
\<close>

record eval_cell_vars =
  quantized_model_output_file :: pyval
  base_model_output_file :: pyval
  printed_cell :: "eval_message list"
  files_after :: "string \<rightharpoonup> (pyexc + json) list"

definition eval_cell ::
  "world \<Rightarrow> (string \<rightharpoonup> (pyexc + json) list) \<Rightarrow> string \<Rightarrow> string \<Rightarrow> eval_cell_vars" where
  "eval_cell w fs quantized_endpoint_name base_endpoint_name =
     (let r1 = create_eval_files w fs quantized_endpoint_name
                 ''quantized_model_outputs.jsonl'' ''trex_sample_subset.jsonl'';
          r2 = create_eval_files w (files r1) base_endpoint_name
                 ''base_model_outputs.jsonl'' ''trex_sample_subset.jsonl''
      in \<lparr>quantized_model_output_file = returned r1,
          base_model_output_file = returned r2,
          printed_cell = printed_eval r1 @ printed_eval r2,
          files_after = files r2\<rparr>)"

section \<open>Streaming responses\<close>

text \<open>
  An event of the response stream is a dictionary: a payload part, with or without the
  \<^verbatim>\<open>Bytes\<close> key, or an event of another kind.
\<close>

datatype event = PayloadPart "string option" | OtherEvent

subsection \<open>The token loop of the Llama 3.3 notebook\<close>

text \<open>
  \<^verbatim>\<open>
  for event in response['Body']:
      line = event['PayloadPart']['Bytes'].decode()
      if line.startswith('data: '):
          try:
              chunk = json.loads(line[6:])  # Skip the "data: " prefix
              if 'token' in chunk:
                  token_count += 1
                  if not first_token_received:
                      ttft = time.time() - start_time
                      first_token_received = True
                  print(chunk['token']['text'], end='', flush=True)
          except json.JSONDecodeError:
              continue
  \<close>
  Each event comes with the reading \<^verbatim>\<open>time.time() - start_time\<close> of the clock at the
  moment it is handled. An exception carries the state in which it was raised.
\<close>

record token_state =
  token_count :: nat
  first_token_received :: bool
  ttft :: "nat option"
  printed_tokens :: "json list"

definition token_init :: token_state where
  "token_init = \<lparr>token_count = 0, first_token_received = False, ttft = None,
                  printed_tokens = []\<rparr>"

definition token_try_body ::
  "world \<Rightarrow> token_state \<Rightarrow> nat \<Rightarrow> string \<Rightarrow> pyexc \<times> token_state + token_state" where
  "token_try_body w st now line =
     (case loads w (drop 6 line) of
        Inl e \<Rightarrow> Inl (e, st)
      | Inr chunk \<Rightarrow>
     (case py_contains ''token'' chunk of
        Inl e \<Rightarrow> Inl (e, st)
      | Inr False \<Rightarrow> Inr st
      | Inr True \<Rightarrow>
          (let st1 = st\<lparr>token_count := token_count st + 1\<rparr>;
               st2 = (if \<not> first_token_received st1
                      then st1\<lparr>ttft := Some now, first_token_received := True\<rparr>
                      else st1)
           in case py_getitem chunk ''token'' of
                Inl e \<Rightarrow> Inl (e, st2)
              | Inr token \<Rightarrow>
             (case py_getitem token ''text'' of
                Inl e \<Rightarrow> Inl (e, st2)
              | Inr text \<Rightarrow> Inr (st2\<lparr>printed_tokens := printed_tokens st2 @ [text]\<rparr>)))))"

definition token_event ::
  "world \<Rightarrow> token_state \<Rightarrow> nat \<times> event \<Rightarrow> pyexc \<times> token_state + token_state" where
  "token_event w st ev =
     (case snd ev of
        OtherEvent \<Rightarrow> Inl (KeyError ''PayloadPart'', st)
      | PayloadPart None \<Rightarrow> Inl (KeyError ''Bytes'', st)
      | PayloadPart (Some bytes) \<Rightarrow>
     (case decode w bytes of
        Inl e \<Rightarrow> Inl (e, st)
      | Inr line \<Rightarrow>
          if startswith line ''data: '' then
            (case token_try_body w st (fst ev) line of
               Inl (e, st') \<Rightarrow> if e = JSONDecodeError then Inr st' else Inl (e, st')
             | Inr st' \<Rightarrow> Inr st')
          else Inr st))"

fun token_loop ::
  "world \<Rightarrow> token_state \<Rightarrow> (nat \<times> event) list \<Rightarrow> pyexc \<times> token_state + token_state" where
  "token_loop w st [] = Inr st"
| "token_loop w st (ev # evs) =
     (case token_event w st ev of
        Inl x \<Rightarrow> Inl x
      | Inr st' \<Rightarrow> token_loop w st' evs)"

subsection \<open>The postprocessing loop of the two NIM notebooks\<close>

text \<open>
  The Llama 3 70B and the Mixtral 8x7B notebooks carry the same cell:
  \<^verbatim>\<open>
  event_stream = response['Body']
  accumulated_data = ""
  start_marker = 'data:'
  end_marker = '"finish_reason":null}]}'

  for event in event_stream:
      try:
          payload = event.get('PayloadPart', {}).get('Bytes', b'')
          if payload:
              data_str = payload.decode('utf-8')
              accumulated_data += data_str
              while start_marker in accumulated_data and end_marker in accumulated_data:
                  start_idx = accumulated_data.find(start_marker)
                  end_idx = accumulated_data.find(end_marker) + len(end_marker)
                  full_response = accumulated_data[start_idx + len(start_marker):end_idx]
                  accumulated_data = accumulated_data[end_idx:]
                  try:
                      data = json.loads(full_response)
                      content = data.get('choices', [{}])[0].get('delta', {}).get('content', "")
                      if content:
                          print(content, end='', flush=True)
                  except json.JSONDecodeError:
                      continue
      except Exception as e:
          print(f"\nError processing event: {e}", flush=True)
          continue
  \<close>
\<close>

definition start_marker :: string where
  "start_marker = ''data:''"

definition end_marker :: string where
  "end_marker = [CHR 0x22] @ ''finish_reason'' @ [CHR 0x22] @ '':null}]}''"

datatype stream_output = Content json | ErrorProcessingEvent pyexc

record stream_state =
  accumulated_data :: string
  printed_stream :: "stream_output list"

definition stream_init :: stream_state where
  "stream_init = \<lparr>accumulated_data = [], printed_stream = []\<rparr>"

text \<open>The inner \<^verbatim>\<open>try\<close>: decoding one fragment and printing its content.\<close>

definition fragment_try_body ::
  "world \<Rightarrow> stream_state \<Rightarrow> string \<Rightarrow> pyexc \<times> stream_state + stream_state" where
  "fragment_try_body w st full_response =
     (case loads w full_response of
        Inl e \<Rightarrow> Inl (e, st)
      | Inr data \<Rightarrow>
     (case py_get data ''choices'' (JArr [JObj []]) of
        Inl e \<Rightarrow> Inl (e, st)
      | Inr choices \<Rightarrow>
     (case py_first choices of
        Inl e \<Rightarrow> Inl (e, st)
      | Inr choice \<Rightarrow>
     (case py_get choice ''delta'' (JObj []) of
        Inl e \<Rightarrow> Inl (e, st)
      | Inr delta \<Rightarrow>
     (case py_get delta ''content'' (JStr []) of
        Inl e \<Rightarrow> Inl (e, st)
      | Inr content \<Rightarrow>
          if truthy content
          then Inr (st\<lparr>printed_stream := printed_stream st @ [Content content]\<rparr>)
          else Inr st)))))"

text \<open>The \<^verbatim>\<open>while\<close> loop. Each round cuts the accumulated data behind the first end
  marker, so the loop ends.\<close>

function drain :: "world \<Rightarrow> stream_state \<Rightarrow> pyexc \<times> stream_state + stream_state" where
  "drain w st =
     (case find_sub (accumulated_data st) start_marker of
        None \<Rightarrow> Inr st
      | Some start_idx \<Rightarrow>
     (case find_sub (accumulated_data st) end_marker of
        None \<Rightarrow> Inr st
      | Some end_pos \<Rightarrow>
          (let end_idx = end_pos + length end_marker;
               full_response =
                 py_slice (accumulated_data st) (start_idx + length start_marker) end_idx;
               st1 = st\<lparr>accumulated_data := drop end_idx (accumulated_data st)\<rparr>
           in case fragment_try_body w st1 full_response of
                Inl (e, st') \<Rightarrow> if e = JSONDecodeError then drain w st' else Inl (e, st')
              | Inr st' \<Rightarrow> drain w st')))"
  by pat_completeness auto

text \<open>The body of the \<^verbatim>\<open>for\<close> loop for one event: the outer handler catches every
  exception, prints it and goes on with the next event.\<close>

definition event_bytes :: "event \<Rightarrow> string" where
  "event_bytes ev = (case ev of PayloadPart (Some bytes) \<Rightarrow> bytes | _ \<Rightarrow> [])"

definition stream_try_body ::
  "world \<Rightarrow> stream_state \<Rightarrow> event \<Rightarrow> pyexc \<times> stream_state + stream_state" where
  "stream_try_body w st ev =
     (let payload = event_bytes ev in
      if payload \<noteq> [] then
        (case decode w payload of
           Inl e \<Rightarrow> Inl (e, st)
         | Inr data_str \<Rightarrow>
             drain w (st\<lparr>accumulated_data := accumulated_data st @ data_str\<rparr>))
      else Inr st)"

definition stream_event :: "world \<Rightarrow> stream_state \<Rightarrow> event \<Rightarrow> stream_state" where
  "stream_event w st ev =
     (case stream_try_body w st ev of
        Inl (e, st') \<Rightarrow> st'\<lparr>printed_stream := printed_stream st' @ [ErrorProcessingEvent e]\<rparr>
      | Inr st' \<Rightarrow> st')"

fun stream_loop :: "world \<Rightarrow> stream_state \<Rightarrow> event list \<Rightarrow> stream_state" where
  "stream_loop w st [] = st"
| "stream_loop w st (ev # evs) = stream_loop w (stream_event w st ev) evs"

section \<open>The role cell of the Llama 3.3 notebook\<close>

text \<open>
  \<^verbatim>\<open>
  try:
      role = sagemaker.get_execution_role()
  except ValueError:
      iam = boto3.client('iam')
      role = iam.get_role(RoleName='sagemaker_execution_role')['Role']['Arn']
  \<close>
  The clause catches \<^verbatim>\<open>ValueError\<close> and its subclasses, among them
  \<^verbatim>\<open>JSONDecodeError\<close> and \<^verbatim>\<open>UnicodeDecodeError\<close>. The two arguments are the outcomes
  of \<^verbatim>\<open>get_execution_role\<close> and of the look-up through IAM.
\<close>

fun is_value_error :: "pyexc \<Rightarrow> bool" where
  "is_value_error (ValueError m) = True"
| "is_value_error JSONDecodeError = True"
| "is_value_error UnicodeDecodeError = True"
| "is_value_error e = False"

definition role_cell :: "pyexc + string \<Rightarrow> pyexc + string \<Rightarrow> pyexc + string" where
  "role_cell get_execution_role get_role_arn =
     (case get_execution_role of
        Inr role \<Rightarrow> Inr role
      | Inl e \<Rightarrow> if is_value_error e then get_role_arn else Inl e)"

section \<open>The create and delete calls of the notebooks\<close>

text \<open>
  A remote resource is known by its kind and the notebook variable that names it; a
  scalable target or a scaling policy of Application Auto Scaling also by the scalable
  dimension the call passes (namespace and resource id are the same in every call of
  the notebook).

  A call creates, updates or deletes its subject, the resource it names. A call of the
  SDK does more on the way, and the second argument lists these further resources, in
  the order the SDK handles them, before the subject: \<^verbatim>\<open>deploy\<close> for a new endpoint
  creates a model and an endpoint configuration and then the endpoint behind the
  predictor it returns; \<^verbatim>\<open>deploy\<close> onto an existing endpoint creates a model and
  then the inference component; \<^verbatim>\<open>predictor.delete_endpoint(delete_endpoint_config=True)\<close>
  deletes the endpoint configuration and then the endpoint, and leaves the model. A call
  of a client has no further resources. \<open>RunNotebook\<close> is the magic \<^verbatim>\<open>%run\<close> of another
  notebook.
\<close>

datatype resource_kind =
    Model
  | EndpointConfig
  | Endpoint
  | InferenceComponent
  | ScalableTarget
  | ScalingPolicy
  | MetricAlarm

datatype resource =
    Named resource_kind string
  | Scaled resource_kind string string

datatype api_call =
    Create resource "resource list"
  | Update resource
  | Delete resource "resource list"
  | RunNotebook string

type_synonym notebook = "api_call list"

text \<open>\<^verbatim>\<open>llama3-8b-scale-to-zero-autoscaling.ipynb\<close>, in cell order:
  \<^verbatim>\<open>create_endpoint_config\<close>, \<^verbatim>\<open>create_endpoint\<close>, \<^verbatim>\<open>final_model.deploy\<close> onto the
  endpoint, \<^verbatim>\<open>register_scalable_target\<close>, two \<^verbatim>\<open>put_scaling_policy\<close>,
  \<^verbatim>\<open>put_metric_alarm\<close>, all three scaling calls with
  \<^verbatim>\<open>ScalableDimension=scalable_dimension\<close>; then \<^verbatim>\<open>deregister_scalable_target\<close> with
  the same dimension, \<^verbatim>\<open>delete_alarms\<close>, \<^verbatim>\<open>delete_scaling_policy\<close> with
  \<^verbatim>\<open>ScalableDimension="sagemaker:variant:DesiredInstanceCount"\<close>, and in the last cell
  \<^verbatim>\<open>delete_inference_component\<close>, \<^verbatim>\<open>delete_endpoint\<close>, \<^verbatim>\<open>delete_endpoint_config\<close>.\<close>

definition step_policy :: resource where
  "step_policy = Scaled ScalingPolicy ''step_scaling_policy_name'' scalable_dimension"

definition scale_to_zero_nb :: notebook where
  "scale_to_zero_nb =
     [Create (Named EndpointConfig ''endpoint_config_name'') [],
      Create (Named Endpoint ''endpoint_name'') [],
      Create (Named InferenceComponent ''inference_component_name'')
        [Named Model ''final_model''],
      Create (Scaled ScalableTarget ''resource_id'' scalable_dimension) [],
      Create (Scaled ScalingPolicy ''target_tracking_policy_name'' scalable_dimension) [],
      Create step_policy [],
      Create (Named MetricAlarm ''step_scaling_alarm_name'') [],
      Delete (Scaled ScalableTarget ''resource_id'' scalable_dimension) [],
      Delete (Named MetricAlarm ''step_scaling_alarm_name'') [],
      Delete (Scaled ScalingPolicy ''step_scaling_policy_name''
                ''sagemaker:variant:DesiredInstanceCount'') [],
      Delete (Named InferenceComponent ''inference_component_name'') [],
      Delete (Named Endpoint ''endpoint_name'') [],
      Delete (Named EndpointConfig ''endpoint_config_name'') []]"

text \<open>\<^verbatim>\<open>multi-adapter-sm-ic-hosting.ipynb\<close>: \<^verbatim>\<open>create_model\<close>,
  \<^verbatim>\<open>create_endpoint_config\<close>, \<^verbatim>\<open>create_endpoint\<close>, two \<^verbatim>\<open>create_inference_component\<close>,
  \<^verbatim>\<open>update_inference_component\<close>; then two \<^verbatim>\<open>delete_inference_component\<close>,
  \<^verbatim>\<open>delete_endpoint\<close>, \<^verbatim>\<open>delete_endpoint_config\<close>, \<^verbatim>\<open>delete_model\<close>.\<close>

definition multi_adapter_nb :: notebook where
  "multi_adapter_nb =
     [Create (Named Model ''model_name'') [],
      Create (Named EndpointConfig ''endpoint_config_name'') [],
      Create (Named Endpoint ''endpoint_name'') [],
      Create (Named InferenceComponent ''base_inference_component_name'') [],
      Create (Named InferenceComponent ''ic_ectsum_name'') [],
      Update (Named InferenceComponent ''ic_ectsum_name''),
      Delete (Named InferenceComponent ''ic_ectsum_name'') [],
      Delete (Named InferenceComponent ''base_inference_component_name'') [],
      Delete (Named Endpoint ''endpoint_name'') [],
      Delete (Named EndpointConfig ''endpoint_config_name'') [],
      Delete (Named Model ''model_name'') []]"

text \<open>The Llama 3.3 70B notebook: \<^verbatim>\<open>predictor = huggingface_model.deploy(...)\<close> and, in
  its last cell, \<^verbatim>\<open>predictor.delete_endpoint(delete_endpoint_config=True)\<close>.\<close>

definition llama33_nb :: notebook where
  "llama33_nb =
     [Create (Named Endpoint ''predictor'')
        [Named Model ''huggingface_model'', Named EndpointConfig ''predictor''],
      Delete (Named Endpoint ''predictor'') [Named EndpointConfig ''predictor'']]"

text \<open>The notebook that evaluates the quantized model:
  \<^verbatim>\<open>base_predictor = base_model.deploy(...)\<close> and
  \<^verbatim>\<open>quantized_predictor = optimized_model.deploy(...)\<close>; its last cells evaluate and
  print, and no cell deletes anything.\<close>

definition quantized_eval_nb :: notebook where
  "quantized_eval_nb =
     [Create (Named Endpoint ''base_predictor'')
        [Named Model ''base_model'', Named EndpointConfig ''base_predictor''],
      Create (Named Endpoint ''quantized_predictor'')
        [Named Model ''optimized_model'', Named EndpointConfig ''quantized_predictor'']]"

text \<open>The two NIM notebooks (Llama 3 70B and Mixtral 8x7B) run
  \<^verbatim>\<open>../base_nim_NVIDIA.ipynb\<close>, which is not among the sources, for the set-up, and end
  with \<^verbatim>\<open>delete_model\<close>, \<^verbatim>\<open>delete_endpoint_config\<close>, \<^verbatim>\<open>delete_endpoint\<close>.\<close>

definition nim_nb :: notebook where
  "nim_nb =
     [RunNotebook ''../base_nim_NVIDIA.ipynb'',
      Delete (Named Model ''sm_model_name'') [],
      Delete (Named EndpointConfig ''endpoint_config_name'') [],
      Delete (Named Endpoint ''endpoint_name'') []]"

definition notebooks :: "notebook list" where
  "notebooks = [scale_to_zero_nb, multi_adapter_nb, llama33_nb, quantized_eval_nb, nim_nb, nim_nb]"

text \<open>The subjects of the create calls and of the delete calls of a notebook, in the
  order of the calls.\<close>

fun created :: "notebook \<Rightarrow> resource list" where
  "created [] = []"
| "created (Create r further # cs) = r # created cs"
| "created (c # cs) = created cs"





text \<open>Every resource the create calls bring into being and every resource the delete
  calls remove: the further resources of a call and its subject. What is left over is
  what was created and has no delete call that names it.\<close>

fun all_created :: "notebook \<Rightarrow> resource list" where
  "all_created [] = []"
| "all_created (Create r further # cs) = further @ r # all_created cs"
| "all_created (c # cs) = all_created cs"

fun all_deleted :: "notebook \<Rightarrow> resource list" where
  "all_deleted [] = []"
| "all_deleted (Delete r further # cs) = further @ r # all_deleted cs"
| "all_deleted (c # cs) = all_deleted cs"

definition leftover :: "notebook \<Rightarrow> resource list" where
  "leftover nb = filter (\<lambda>r. r \<notin> set (all_deleted nb)) (all_created nb)"

definition torn_down :: "notebook \<Rightarrow> bool" where
  "torn_down nb = (leftover nb = [])"

text \<open>The calls from the first delete call on: the closing part of a notebook.\<close>

fun is_delete :: "api_call \<Rightarrow> bool" where
  "is_delete (Delete r further) = True"
| "is_delete c = False"

definition closing_calls :: "notebook \<Rightarrow> notebook" where
  "closing_calls nb = dropWhile (\<lambda>c. \<not> is_delete c) nb"

section \<open>The adapter re-upload cell of the multi-adapter notebook\<close>

text \<open>
  \<^verbatim>\<open>
  new_ectsum_adapter_s3_uri = f"s3://{bucket}/lora-adapters/new-ectsum-adapter.tar.gz"

  !aws s3 cp ./adapters/ectsum-adapter.tar.gz {new_prt_adapter_s3_uri}
  \<close>
  A text with fields in braces is a list of pieces. The namespace maps a name to the
  text of its value. An f-string is evaluated by Python: a field whose name is unbound
  raises \<^verbatim>\<open>NameError\<close>. The line starting with \<^verbatim>\<open>!\<close> is not Python: IPython expands
  it (\<^verbatim>\<open>InteractiveShell.var_expand\<close>), and a command that cannot be formatted is left
  as it is written and handed to the shell:
  \<^verbatim>\<open>
  try:
      cmd = formatter.vformat(cmd, args=[], kwargs=ns)
  except Exception:
      # if formatter couldn't format, just let it go untransformed
      pass
  return cmd
  \<close>
  The exit status of the shell command raises nothing in the cell.
\<close>

datatype piece = Lit string | Field string

fun as_written :: "piece list \<Rightarrow> string" where
  "as_written [] = []"
| "as_written (Lit s # ps) = s @ as_written ps"
| "as_written (Field v # ps) = ''{'' @ v @ ''}'' @ as_written ps"

fun vformat :: "(string \<rightharpoonup> string) \<Rightarrow> piece list \<Rightarrow> pyexc + string" where
  "vformat ns [] = Inr []"
| "vformat ns (Lit s # ps) =
     (case vformat ns ps of Inl e \<Rightarrow> Inl e | Inr r \<Rightarrow> Inr (s @ r))"
| "vformat ns (Field v # ps) =
     (case ns v of
        None \<Rightarrow> Inl (NameError v)
      | Some x \<Rightarrow> (case vformat ns ps of Inl e \<Rightarrow> Inl e | Inr r \<Rightarrow> Inr (x @ r)))"

definition var_expand :: "(string \<rightharpoonup> string) \<Rightarrow> piece list \<Rightarrow> string" where
  "var_expand ns cmd = (case vformat ns cmd of Inl e \<Rightarrow> as_written cmd | Inr s \<Rightarrow> s)"

record cell_run =
  namespace :: "string \<rightharpoonup> string"
  shell_commands :: "string list"
  raised :: "pyexc option"

definition new_uri_template :: "piece list" where
  "new_uri_template =
     [Lit ''s3://'', Field ''bucket'', Lit ''/lora-adapters/new-ectsum-adapter.tar.gz'']"

definition reupload_command :: "piece list" where
  "reupload_command =
     [Lit ''aws s3 cp ./adapters/ectsum-adapter.tar.gz '', Field ''new_prt_adapter_s3_uri'']"

definition reupload_cell :: "(string \<rightharpoonup> string) \<Rightarrow> cell_run" where
  "reupload_cell ns =
     (case vformat ns new_uri_template of
        Inl e \<Rightarrow> \<lparr>namespace = ns, shell_commands = [], raised = Some e\<rparr>
      | Inr uri \<Rightarrow>
          (let ns1 = ns(''new_ectsum_adapter_s3_uri'' \<mapsto> uri)
           in \<lparr>namespace = ns1, shell_commands = [var_expand ns1 reupload_command],
               raised = None\<rparr>))"

text \<open>The names the code cells of the notebook bind (by assignment or import), in the
  order of their first binding.\<close>

definition bound_names :: "string list" where
  "bound_names =
     [''sagemaker'', ''boto3'', ''json'', ''role'', ''sess'', ''bucket'', ''region'',
      ''sm_client'', ''sm_runtime'', ''HF_TOKEN'', ''model_id'', ''model_id_pathsafe'',
      ''local_model_path'', ''s3_model_path'', ''snapshot_download'', ''inference_image_uri'',
      ''env'', ''model_name'', ''create_model_response'', ''model_arn'',
      ''endpoint_config_name'', ''variant_name'', ''instance_type'',
      ''model_data_download_timeout_in_seconds'',
      ''container_startup_health_check_timeout_in_seconds'', ''initial_instance_count'',
      ''create_endpoint_config_response'', ''endpoint_name'', ''create_endpoint_response'',
      ''base_inference_component_name'', ''initial_copy_count'', ''min_memory_required_in_mb'',
      ''number_of_accelerator_devices_required'', ''base_create_inference_component_response'',
      ''urllib'', ''cw_path'', ''ectsum_adapter_filename'', ''ectsum_adapter_local_path'',
      ''ectsum_adapter_s3_uri'', ''ic_ectsum_name'', ''load_dataset'', ''dataset_name'',
      ''test_dataset'', ''test_item'', ''ground_truth_response'', ''prompt'',
      ''component_to_invoke'', ''response_model'', ''base_response'', ''adapter_response'',
      ''new_ectsum_adapter_s3_uri'', ''update_inference_component_response'']"

section \<open>A sample world\<close>

text \<open>A world for the examples: \<^verbatim>\<open>json.loads\<close> accepts the text \<^verbatim>\<open>{}\<close> only, every
  byte string decodes to itself, and \<^verbatim>\<open>invoke_endpoint\<close> raises a client error.\<close>

definition strict_world :: world where
  "strict_world =
     \<lparr>loads = (\<lambda>s. if s = ''{}'' then Inr (JObj []) else Inl JSONDecodeError),
      decode = Inr,
      invoke_endpoint = (\<lambda>endpoint_name payload. Inl (ClientError ''ValidationError''))\<rparr>"

text \<open>A world in which \<^verbatim>\<open>json.loads\<close> answers the number 1 and only the bytes
  \<^verbatim>\<open>data: 1\<close> decode; a file system with one input file of one question; and a
  namespace that binds every name bound by the cells before the re-upload cell.\<close>

definition sample_fs :: "string \<rightharpoonup> (pyexc + json) list" where
  "sample_fs = [''in.jsonl'' \<mapsto> [Inr (JObj [(''question'', JStr ''q'')])]]"

definition garbled_world :: world where
  "garbled_world =
     \<lparr>loads = (\<lambda>s. Inr (JNum 1)),
      decode = (\<lambda>bytes. if bytes = ''data: 1'' then Inr bytes else Inl UnicodeDecodeError),
      invoke_endpoint = (\<lambda>endpoint_name payload. Inr ''1'')\<rparr>"

definition sample_namespace :: "string \<rightharpoonup> string" where
  "sample_namespace =
     (\<lambda>name. if name \<in> set bound_names - {''new_ectsum_adapter_s3_uri'',
                   ''update_inference_component_response''}
             then Some (''<'' @ name @ ''>'') else None)"

section \<open>Termination of the fragment loop\<close>

lemma find_sub_bound:
  "find_sub s sub = Some i \<Longrightarrow> i + length sub \<le> length s"
proof (induction s arbitrary: i)
  case Nil
  then show ?case by (simp split: if_splits)
next
  case (Cons c cs)
  show ?case
  proof (cases "startswith (c # cs) sub")
    case True
    then have "length sub = length (take (length sub) (c # cs))"
      unfolding startswith_def by simp
    then have "length sub = min (length (c # cs)) (length sub)"
      by (simp only: length_take)
    then have "length sub \<le> length (c # cs)"
      by (metis min.cobounded1)
    with True Cons.prems show ?thesis by simp
  next
    case False
    with Cons.prems obtain j where "find_sub cs sub = Some j" and "i = Suc j"
      by auto
    with Cons.IH show ?thesis by fastforce
  qed
qed

lemma fragment_try_body_accumulated:
  "fragment_try_body w st f = Inr st' \<Longrightarrow> accumulated_data st' = accumulated_data st"
  "fragment_try_body w st f = Inl (e, st') \<Longrightarrow> accumulated_data st' = accumulated_data st"
  by (auto simp: fragment_try_body_def split: sum.splits if_splits)

lemma end_marker_length: "length end_marker = 23"
  by (simp add: end_marker_def)

termination drain
proof (relation "measure (\<lambda>(w, st). length (accumulated_data st))")
  show "wf (measure (\<lambda>(w, st). length (accumulated_data st)))"
    by simp
next
  fix w :: world and st :: stream_state
    and start_idx end_pos end_idx :: nat and full_response :: string
    and st1 st' :: stream_state and x :: "pyexc \<times> stream_state" and e :: pyexc
  assume f: "find_sub (accumulated_data st) end_marker = Some end_pos"
    and ei: "end_idx = end_pos + length end_marker"
    and s1: "st1 = st\<lparr>accumulated_data := drop end_idx (accumulated_data st)\<rparr>"
    and r: "fragment_try_body w st1 full_response = Inl x" and x: "(e, st') = x"
  from r x have "accumulated_data st' = accumulated_data st1"
    using fragment_try_body_accumulated(2) by metis
  moreover from f have "end_pos + length end_marker \<le> length (accumulated_data st)"
    by (rule find_sub_bound)
  ultimately show "((w, st'), (w, st)) \<in> measure (\<lambda>(w, st). length (accumulated_data st))"
    using ei s1 by (simp add: end_marker_length)
next
  fix w :: world and st :: stream_state
    and start_idx end_pos end_idx :: nat and full_response :: string
    and st1 st' :: stream_state
  assume f: "find_sub (accumulated_data st) end_marker = Some end_pos"
    and ei: "end_idx = end_pos + length end_marker"
    and s1: "st1 = st\<lparr>accumulated_data := drop end_idx (accumulated_data st)\<rparr>"
    and r: "fragment_try_body w st1 full_response = Inr st'"
  from r have "accumulated_data st' = accumulated_data st1"
    by (rule fragment_try_body_accumulated(1))
  moreover from f have "end_pos + length end_marker \<le> length (accumulated_data st)"
    by (rule find_sub_bound)
  ultimately show "((w, st'), (w, st)) \<in> measure (\<lambda>(w, st). length (accumulated_data st))"
    using ei s1 by (simp add: end_marker_length)
qed

declare drain.simps [simp del]

section \<open>Properties of the polling loops\<close>

subsection \<open>Running the loop\<close>

lemma poll_loop_run:
  assumes "is_terminal (describe (calls s + k))"
    and "\<forall>j<k. \<not> is_terminal (describe (calls s + j))"
  shows "poll_loop describe s =
     Some \<lparr>calls = Suc (calls s + k),
           printed = printed s @ map describe [calls s..<Suc (calls s + k)],
           sleeps = sleeps s @ replicate k 30\<rparr>"
  using assms
proof (induction k arbitrary: s)
  case 0
  then show ?case
    by (subst poll_loop.simps) (simp add: Let_def)
next
  case (Suc k)
  let ?s' = "s\<lparr>calls := Suc (calls s), printed := printed s @ [describe (calls s)],
               sleeps := sleeps s @ [30]\<rparr>"
  from Suc.prems(2) have now: "\<not> is_terminal (describe (calls s))"
    by (metis add.right_neutral zero_less_Suc)
  have t: "is_terminal (describe (calls ?s' + k))"
    using Suc.prems(1) by simp
  have n: "\<forall>j<k. \<not> is_terminal (describe (calls ?s' + j))"
    using Suc.prems(2) by (metis Suc_less_eq add_Suc_shift poll_state.select_convs(1) poll_state.surjective poll_state.update_convs(1,2,3))
  have step: "poll_loop describe s = poll_loop describe ?s'"
    using now by (subst poll_loop.simps) (simp add: Let_def)
  have "[calls s..<Suc (calls s + Suc k)] = calls s # [Suc (calls s)..<Suc (Suc (calls s + k))]"
    by (simp add: upt_rec)
  then show ?case
    using Suc.IH [OF t n] step by (simp add: replicate_app_Cons_same)
qed

lemma poll_loop_first_terminal:
  assumes "first_terminal describe k"
  shows "poll_loop describe poll_init = Some (exit_state describe k)"
  using assms poll_loop_run [of describe poll_init k]
  by (simp add: first_terminal_def poll_init_def exit_state_def)

lemma poll_loop_Some_terminal:
  assumes r: "poll_loop describe s = Some y"
  shows "\<exists>j. is_terminal (describe j)"
proof (rule poll_loop.raw_induct [where P = "\<lambda>d s y. \<exists>j. is_terminal (d j)", OF _ r])
  fix f d s y
  assume IH: "\<And>d s y. f d s = Some y \<Longrightarrow> \<exists>j. is_terminal (d j)"
    and body: "(let status = d (calls s);
          s1 = s\<lparr>calls := Suc (calls s), printed := printed s @ [status]\<rparr>
      in if is_terminal status then Some s1
         else f d (s1\<lparr>sleeps := sleeps s1 @ [30]\<rparr>)) = Some y"
  show "\<exists>j. is_terminal (d j)"
  proof (cases "is_terminal (d (calls s))")
    case True
    then show ?thesis by blast
  next
    case False
    with body have "f d (s\<lparr>calls := Suc (calls s),
        printed := printed s @ [d (calls s)], sleeps := sleeps s @ [30]\<rparr>) = Some y"
      by (simp add: Let_def)
    then show ?thesis by (rule IH)
  qed
qed

lemma poll_loop_diverges:
  assumes "\<forall>j. \<not> is_terminal (describe j)"
  shows "poll_loop describe s = None"
proof (cases "poll_loop describe s")
  case None
  then show ?thesis .
next
  case (Some y)
  then have "\<exists>j. is_terminal (describe j)"
    by (rule poll_loop_Some_terminal)
  with assms show ?thesis by blast
qed

lemma first_terminal_exists:
  assumes "is_terminal (describe n)"
  shows "\<exists>k. first_terminal describe k"
proof -
  let ?k = "LEAST i. is_terminal (describe i)"
  have "is_terminal (describe ?k)"
    using assms by (rule LeastI)
  moreover have "\<forall>j<?k. \<not> is_terminal (describe j)"
    using not_less_Least by blast
  ultimately show ?thesis
    unfolding first_terminal_def by blast
qed

lemma poll_loop_returns_iff:
  "poll_loop describe poll_init = Some s' \<longleftrightarrow>
     (\<exists>k. first_terminal describe k \<and> s' = exit_state describe k)"
proof
  assume r: "poll_loop describe poll_init = Some s'"
  have "\<exists>n. is_terminal (describe n)"
  proof (rule ccontr)
    assume "\<not> (\<exists>n. is_terminal (describe n))"
    then have "poll_loop describe poll_init = None"
      using poll_loop_diverges by simp
    with r show False by simp
  qed
  then obtain k where k: "first_terminal describe k"
    using first_terminal_exists by blast
  with r poll_loop_first_terminal have "s' = exit_state describe k"
    by fastforce
  with k show "\<exists>k. first_terminal describe k \<and> s' = exit_state describe k"
    by blast
next
  assume "\<exists>k. first_terminal describe k \<and> s' = exit_state describe k"
  then show "poll_loop describe poll_init = Some s'"
    using poll_loop_first_terminal by blast
qed

lemma exit_state_last_printed:
  "last (printed (exit_state describe k)) = describe k"
  by (simp add: exit_state_def)

lemma exit_state_butlast_printed:
  "butlast (printed (exit_state describe k)) = map describe [0..<k]"
  by (simp add: exit_state_def butlast_append)

text \<open>
  C1. Each status-polling loop leaves exactly when the status just observed is
  \<^verbatim>\<open>InService\<close> or \<^verbatim>\<open>Failed\<close>: the loop returns a state \<open>s'\<close> if and only if the
  answers contain a first terminal status, at some index \<open>k\<close>, and \<open>s'\<close> is the state after
  \<open>k + 1\<close> describe calls; then the last status printed is terminal and no earlier one is.
  When no answer is ever terminal the loop does not return.
\<close>

theorem poll_loop_exits_at_first_terminal:
  "(poll_loop describe poll_init = Some s' \<longleftrightarrow>
      (\<exists>k. first_terminal describe k \<and> s' = exit_state describe k)) \<and>
   (poll_loop describe poll_init = Some s' \<longrightarrow>
      is_terminal (last (printed s')) \<and>
      (\<forall>status \<in> set (butlast (printed s')). \<not> is_terminal status)) \<and>
   ((\<forall>j. \<not> is_terminal (describe j)) \<longrightarrow> poll_loop describe poll_init = None)"
proof (intro conjI impI)
  show "poll_loop describe poll_init = Some s' \<longleftrightarrow>
      (\<exists>k. first_terminal describe k \<and> s' = exit_state describe k)"
    by (rule poll_loop_returns_iff)
next
  assume "poll_loop describe poll_init = Some s'"
  then obtain k where k: "first_terminal describe k" and s': "s' = exit_state describe k"
    using poll_loop_returns_iff by blast
  from k s' show "is_terminal (last (printed s'))"
    by (simp add: exit_state_last_printed first_terminal_def)
  from k s' show "\<forall>status \<in> set (butlast (printed s')). \<not> is_terminal status"
    by (auto simp: exit_state_butlast_printed first_terminal_def)
next
  assume "\<forall>j. \<not> is_terminal (describe j)"
  then show "poll_loop describe poll_init = None"
    by (rule poll_loop_diverges)
qed

theorem poll_loop_exits_at_first_terminal_witness:
  "wait_endpoint_loop
     (\<lambda>i. \<lparr>EndpointStatus = (if i < 2 then ''Creating'' else ''InService'')\<rparr>) =
     Some \<lparr>calls = 3, printed = [''Creating'', ''Creating'', ''InService''],
           sleeps = [30, 30]\<rparr> \<and>
   wait_inference_component_loop (\<lambda>i. \<lparr>InferenceComponentStatus = ''Updating''\<rparr>) = None"
proof
  let ?d = "\<lambda>i::nat. if i < 2 then ''Creating'' else ''InService''"
  have ft: "first_terminal ?d 2"
    by (simp add: first_terminal_def is_terminal_def)
  have ex: "exit_state ?d 2 =
      \<lparr>calls = 3, printed = [''Creating'', ''Creating'', ''InService''], sleeps = [30, 30]\<rparr>"
    by (simp add: exit_state_def numeral_3_eq_3 numeral_2_eq_2 upt_rec)
  have "\<exists>k. first_terminal ?d k \<and> exit_state ?d 2 = exit_state ?d k"
    using ft by blast
  then have "poll_loop ?d poll_init = Some (exit_state ?d 2)"
    using poll_loop_exits_at_first_terminal [of ?d "exit_state ?d 2"] by blast
  then show "wait_endpoint_loop
     (\<lambda>i. \<lparr>EndpointStatus = (if i < 2 then ''Creating'' else ''InService'')\<rparr>) =
     Some \<lparr>calls = 3, printed = [''Creating'', ''Creating'', ''InService''],
           sleeps = [30, 30]\<rparr>"
    by (simp add: wait_endpoint_loop_def ex)
next
  have "\<forall>j::nat. \<not> is_terminal ''Updating''"
    by (simp add: is_terminal_def)
  then have "poll_loop (\<lambda>i. ''Updating'') poll_init = None"
    using poll_loop_exits_at_first_terminal [of "\<lambda>i. ''Updating''"] by blast
  then show "wait_inference_component_loop (\<lambda>i. \<lparr>InferenceComponentStatus = ''Updating''\<rparr>) = None"
    by (simp add: wait_inference_component_loop_def)
qed

text \<open>
  C6. Between two consecutive describe calls of a polling loop there is exactly one
  \<^verbatim>\<open>time.sleep\<close> call and its argument is the constant 30, whatever the iteration and
  whatever the status observed: a loop that leaves after \<open>n\<close> describe calls has slept
  \<open>n - 1\<close> times, 30 seconds each. The loop has no bound of its own on the iterations:
  it polls through any number \<open>n\<close> of non-terminal answers.
\<close>

theorem poll_loop_fixed_sleep:
  "(poll_loop describe poll_init = Some s' \<longrightarrow>
      sleeps s' = replicate (calls s' - 1) 30) \<and>
   (\<forall>n. poll_loop (\<lambda>i. if i < n then ''Creating'' else ''InService'') poll_init =
      Some \<lparr>calls = Suc n, printed = replicate n ''Creating'' @ [''InService''],
            sleeps = replicate n 30\<rparr>)"
proof (intro conjI impI allI)
  assume "poll_loop describe poll_init = Some s'"
  then obtain k where "s' = exit_state describe k"
    using poll_loop_returns_iff by blast
  then show "sleeps s' = replicate (calls s' - 1) 30"
    by (simp add: exit_state_def)
next
  fix n :: nat
  let ?d = "\<lambda>i::nat. if i < n then ''Creating'' else ''InService''"
  have "first_terminal ?d n"
    by (simp add: first_terminal_def is_terminal_def)
  then have "poll_loop ?d poll_init = Some (exit_state ?d n)"
    by (rule poll_loop_first_terminal)
  moreover have "map ?d [0..<n] = replicate n ''Creating''"
    by (rule nth_equalityI) simp_all
  ultimately show "poll_loop ?d poll_init =
      Some \<lparr>calls = Suc n, printed = replicate n ''Creating'' @ [''InService''],
            sleeps = replicate n 30\<rparr>"
    by (simp add: exit_state_def)
qed

theorem poll_loop_fixed_sleep_witness:
  "poll_loop (\<lambda>i. if i < 3 then ''Creating'' else ''InService'') poll_init =
     Some \<lparr>calls = 4, printed = [''Creating'', ''Creating'', ''Creating'', ''InService''],
           sleeps = [30, 30, 30]\<rparr> \<and>
   sleeps \<lparr>calls = 4, printed = [''Creating'', ''Creating'', ''Creating'', ''InService''],
           sleeps = [30, 30, 30]\<rparr> = replicate (4 - 1) 30"
proof -
  let ?d = "\<lambda>i::nat. if i < 3 then ''Creating'' else ''InService''"
  let ?s = "\<lparr>calls = 4, printed = [''Creating'', ''Creating'', ''Creating'', ''InService''],
           sleeps = [30, 30, 30]\<rparr>"
  have run: "poll_loop ?d poll_init = Some ?s"
    using poll_loop_fixed_sleep [of ?d ?s] by (simp add: numeral_3_eq_3)
  then have "sleeps ?s = replicate (calls ?s - 1) 30"
    using poll_loop_fixed_sleep [of ?d ?s] by blast
  with run show ?thesis by simp
qed

subsection \<open>The autoscaling clean-up cell\<close>

lemma try_call_ok:
  "aws req = None \<or> aws req = Some handled \<Longrightarrow>
   try_call aws req handled m1 m2 st =
     Inr \<lparr>attempted = attempted st @ [req],
          shown = shown st @ [reply (aws req) m1 m2]\<rparr>"
  by (auto simp: try_call_def reply_def Let_def)

lemma try_call_raises:
  "aws req = Some e \<Longrightarrow> e \<noteq> handled \<Longrightarrow>
   try_call aws req handled m1 m2 st = Inl (e, st\<lparr>attempted := attempted st @ [req]\<rparr>)"
  by (simp add: try_call_def Let_def)

text \<open>
  C5. In the clean-up cell each of the three calls has its own handler for its not-found
  exception, which prints a message. When every call either succeeds or raises its
  not-found exception, all three requests are sent, in order, and five lines are
  printed. An exception other than the call's not-found exception leaves the cell at
  that call: the requests after it are not sent.
\<close>

theorem autoscaling_cleanup_cell_guards:
  "((aws (cleanup_deregister ic) = None \<or> aws (cleanup_deregister ic) = Some ObjectNotFoundException) \<and>
    (aws (cleanup_delete_alarms ic) = None \<or>
       aws (cleanup_delete_alarms ic) = Some ResourceNotFoundException) \<and>
    (aws (cleanup_delete_scaling_policy ic) = None \<or>
       aws (cleanup_delete_scaling_policy ic) = Some ObjectNotFoundException) \<longrightarrow>
    autoscaling_cleanup_cell aws ic =
      Inr \<lparr>attempted =
             [cleanup_deregister ic, cleanup_delete_alarms ic, cleanup_delete_scaling_policy ic],
           shown =
             [reply (aws (cleanup_deregister ic))
                (TargetDeregistered (resource_id ic)) (TargetNotFound (resource_id ic)),
              Dashes,
              reply (aws (cleanup_delete_alarms ic))
                (AlarmDeleted (step_scaling_alarm_name ic))
                (AlarmNotFound (step_scaling_alarm_name ic)),
              Dashes,
              reply (aws (cleanup_delete_scaling_policy ic))
                (PolicyDeleted (step_scaling_policy_name ic))
                (PolicyNotFound (step_scaling_policy_name ic))]\<rparr>) \<and>
   (aws (cleanup_deregister ic) = Some e \<and> e \<noteq> ObjectNotFoundException \<longrightarrow>
    (\<exists>st. autoscaling_cleanup_cell aws ic = Inl (e, st) \<and>
          attempted st = [cleanup_deregister ic])) \<and>
   ((aws (cleanup_deregister ic) = None \<or> aws (cleanup_deregister ic) = Some ObjectNotFoundException) \<and>
    aws (cleanup_delete_alarms ic) = Some e \<and> e \<noteq> ResourceNotFoundException \<longrightarrow>
    (\<exists>st. autoscaling_cleanup_cell aws ic = Inl (e, st) \<and>
          attempted st = [cleanup_deregister ic, cleanup_delete_alarms ic])) \<and>
   ((aws (cleanup_deregister ic) = None \<or> aws (cleanup_deregister ic) = Some ObjectNotFoundException) \<and>
    (aws (cleanup_delete_alarms ic) = None \<or>
       aws (cleanup_delete_alarms ic) = Some ResourceNotFoundException) \<and>
    aws (cleanup_delete_scaling_policy ic) = Some e \<and> e \<noteq> ObjectNotFoundException \<longrightarrow>
    (\<exists>st. autoscaling_cleanup_cell aws ic = Inl (e, st) \<and>
          attempted st =
            [cleanup_deregister ic, cleanup_delete_alarms ic, cleanup_delete_scaling_policy ic]))"
proof (intro conjI impI)
  assume a: "(aws (cleanup_deregister ic) = None \<or> aws (cleanup_deregister ic) = Some ObjectNotFoundException) \<and>
    (aws (cleanup_delete_alarms ic) = None \<or>
       aws (cleanup_delete_alarms ic) = Some ResourceNotFoundException) \<and>
    (aws (cleanup_delete_scaling_policy ic) = None \<or>
       aws (cleanup_delete_scaling_policy ic) = Some ObjectNotFoundException)"
  then show "autoscaling_cleanup_cell aws ic =
      Inr \<lparr>attempted =
             [cleanup_deregister ic, cleanup_delete_alarms ic, cleanup_delete_scaling_policy ic],
           shown =
             [reply (aws (cleanup_deregister ic))
                (TargetDeregistered (resource_id ic)) (TargetNotFound (resource_id ic)),
              Dashes,
              reply (aws (cleanup_delete_alarms ic))
                (AlarmDeleted (step_scaling_alarm_name ic))
                (AlarmNotFound (step_scaling_alarm_name ic)),
              Dashes,
              reply (aws (cleanup_delete_scaling_policy ic))
                (PolicyDeleted (step_scaling_policy_name ic))
                (PolicyNotFound (step_scaling_policy_name ic))]\<rparr>"
    by (simp add: autoscaling_cleanup_cell_def try_call_ok print_dashes_def cell_init_def)
next
  assume "aws (cleanup_deregister ic) = Some e \<and> e \<noteq> ObjectNotFoundException"
  then show "\<exists>st. autoscaling_cleanup_cell aws ic = Inl (e, st) \<and>
          attempted st = [cleanup_deregister ic]"
    by (simp add: autoscaling_cleanup_cell_def try_call_raises cell_init_def)
next
  assume "(aws (cleanup_deregister ic) = None \<or> aws (cleanup_deregister ic) = Some ObjectNotFoundException) \<and>
    aws (cleanup_delete_alarms ic) = Some e \<and> e \<noteq> ResourceNotFoundException"
  then show "\<exists>st. autoscaling_cleanup_cell aws ic = Inl (e, st) \<and>
          attempted st = [cleanup_deregister ic, cleanup_delete_alarms ic]"
    by (simp add: autoscaling_cleanup_cell_def try_call_ok try_call_raises print_dashes_def
        cell_init_def)
next
  assume "(aws (cleanup_deregister ic) = None \<or> aws (cleanup_deregister ic) = Some ObjectNotFoundException) \<and>
    (aws (cleanup_delete_alarms ic) = None \<or>
       aws (cleanup_delete_alarms ic) = Some ResourceNotFoundException) \<and>
    aws (cleanup_delete_scaling_policy ic) = Some e \<and> e \<noteq> ObjectNotFoundException"
  then show "\<exists>st. autoscaling_cleanup_cell aws ic = Inl (e, st) \<and>
          attempted st =
            [cleanup_deregister ic, cleanup_delete_alarms ic, cleanup_delete_scaling_policy ic]"
    by (simp add: autoscaling_cleanup_cell_def try_call_ok try_call_raises print_dashes_def
        cell_init_def)
qed

theorem autoscaling_cleanup_cell_guards_witness:
  "autoscaling_cleanup_cell
     (\<lambda>r. case r of DeleteScalingPolicy n k \<Rightarrow> Some ObjectNotFoundException | _ \<Rightarrow> None) ''ic'' =
     Inr \<lparr>attempted =
            [cleanup_deregister ''ic'', cleanup_delete_alarms ''ic'',
             cleanup_delete_scaling_policy ''ic''],
          shown =
            [TargetDeregistered ''inference-component/ic'', Dashes,
             AlarmDeleted ''step-scaling-alarm-llama3-8b-scale-to-zero-aas-ic'', Dashes,
             PolicyNotFound ''Step-scaling-policy-llama3-8b-scale-to-zero-aas-ic'']\<rparr> \<and>
   (\<exists>st. autoscaling_cleanup_cell (\<lambda>r. Some (ClientError ''AccessDenied'')) ''ic'' =
           Inl (ClientError ''AccessDenied'', st) \<and>
         attempted st = [cleanup_deregister ''ic'']) \<and>
   (\<exists>st. autoscaling_cleanup_cell
           (\<lambda>r. case r of DeleteAlarms ns \<Rightarrow> Some ObjectNotFoundException | _ \<Rightarrow> None) ''ic'' =
           Inl (ObjectNotFoundException, st) \<and>
         attempted st = [cleanup_deregister ''ic'', cleanup_delete_alarms ''ic'']) \<and>
   (\<exists>st. autoscaling_cleanup_cell
           (\<lambda>r. case r of DeregisterScalableTarget k \<Rightarrow> Some ObjectNotFoundException
                 | DeleteScalingPolicy n k \<Rightarrow> Some ResourceNotFoundException
                 | _ \<Rightarrow> None) ''ic'' =
           Inl (ResourceNotFoundException, st) \<and>
         attempted st =
           [cleanup_deregister ''ic'', cleanup_delete_alarms ''ic'',
            cleanup_delete_scaling_policy ''ic''])"
proof (intro conjI)
  let ?aws = "\<lambda>r. case r of DeleteScalingPolicy n k \<Rightarrow> Some ObjectNotFoundException | _ \<Rightarrow> None"
  show "autoscaling_cleanup_cell ?aws ''ic'' =
     Inr \<lparr>attempted =
            [cleanup_deregister ''ic'', cleanup_delete_alarms ''ic'',
             cleanup_delete_scaling_policy ''ic''],
          shown =
            [TargetDeregistered ''inference-component/ic'', Dashes,
             AlarmDeleted ''step-scaling-alarm-llama3-8b-scale-to-zero-aas-ic'', Dashes,
             PolicyNotFound ''Step-scaling-policy-llama3-8b-scale-to-zero-aas-ic'']\<rparr>"
    using autoscaling_cleanup_cell_guards [of ?aws "''ic''"]
    by (simp add: cleanup_deregister_def cleanup_delete_alarms_def
        cleanup_delete_scaling_policy_def reply_def resource_id_def
        step_scaling_alarm_name_def step_scaling_policy_name_def)
next
  show "\<exists>st. autoscaling_cleanup_cell (\<lambda>r. Some (ClientError ''AccessDenied'')) ''ic'' =
           Inl (ClientError ''AccessDenied'', st) \<and>
         attempted st = [cleanup_deregister ''ic'']"
    using autoscaling_cleanup_cell_guards
      [of "\<lambda>r. Some (ClientError ''AccessDenied'')" "''ic''" "ClientError ''AccessDenied''"]
    by simp
next
  let ?aws = "\<lambda>r. case r of DeleteAlarms ns \<Rightarrow> Some ObjectNotFoundException | _ \<Rightarrow> None"
  show "\<exists>st. autoscaling_cleanup_cell ?aws ''ic'' = Inl (ObjectNotFoundException, st) \<and>
         attempted st = [cleanup_deregister ''ic'', cleanup_delete_alarms ''ic'']"
    using autoscaling_cleanup_cell_guards [of ?aws "''ic''" ObjectNotFoundException]
    by (simp add: cleanup_deregister_def cleanup_delete_alarms_def)
next
  let ?aws = "\<lambda>r. case r of DeregisterScalableTarget k \<Rightarrow> Some ObjectNotFoundException
                 | DeleteScalingPolicy n k \<Rightarrow> Some ResourceNotFoundException
                 | _ \<Rightarrow> None"
  show "\<exists>st. autoscaling_cleanup_cell ?aws ''ic'' = Inl (ResourceNotFoundException, st) \<and>
         attempted st =
           [cleanup_deregister ''ic'', cleanup_delete_alarms ''ic'',
            cleanup_delete_scaling_policy ''ic'']"
    using autoscaling_cleanup_cell_guards [of ?aws "''ic''" ResourceNotFoundException]
    by (simp add: cleanup_deregister_def cleanup_delete_alarms_def
        cleanup_delete_scaling_policy_def)
qed

text \<open>
  C8. The step scaling policy is put under the scalable dimension
  \<^verbatim>\<open>sagemaker:inference-component:DesiredCopyCount\<close>; the clean-up cell asks to delete
  the policy of the same name, namespace and resource id under
  \<^verbatim>\<open>sagemaker:variant:DesiredInstanceCount\<close>. For every inference component name the
  two identifiers differ: the triple of the delete request is none of the triples under
  which the set-up cells registered the target and put the two policies, so the request
  names no policy the notebook created. The deregistration in the same cell does carry
  the triple of the registration.
\<close>

theorem cleanup_policy_key_differs:
  "cleanup_delete_scaling_policy ic =
     DeleteScalingPolicy (step_scaling_policy_name ic) (cleanup_policy_key ic) \<and>
   put_step_scaling_policy ic =
     PutScalingPolicy (step_scaling_policy_name ic) ''StepScaling'' (step_policy_key ic) \<and>
   ScalableDimension (step_policy_key ic) = ''sagemaker:inference-component:DesiredCopyCount'' \<and>
   ScalableDimension (cleanup_policy_key ic) = ''sagemaker:variant:DesiredInstanceCount'' \<and>
   ServiceNamespace (cleanup_policy_key ic) = ServiceNamespace (step_policy_key ic) \<and>
   ResourceId (cleanup_policy_key ic) = ResourceId (step_policy_key ic) \<and>
   cleanup_policy_key ic \<noteq> step_policy_key ic \<and>
   key_of (cleanup_delete_scaling_policy ic) \<notin>
     set (map key_of [register_scalable_target ic, put_target_tracking_policy ic,
                      put_step_scaling_policy ic]) \<and>
   key_of (cleanup_deregister ic) = key_of (register_scalable_target ic)"
  by (simp add: cleanup_delete_scaling_policy_def put_step_scaling_policy_def
      cleanup_policy_key_def step_policy_key_def scalable_dimension_def service_namespace_def
      register_scalable_target_def registered_key_def put_target_tracking_policy_def
      cleanup_deregister_def)

section \<open>Properties of the streaming loops\<close>

lemma py_contains_not_decode: "py_contains k x \<noteq> Inl JSONDecodeError"
  by (cases x) auto

lemma py_getitem_not_decode: "py_getitem x k \<noteq> Inl JSONDecodeError"
  by (cases x) (auto split: option.splits)

lemma py_get_not_decode: "py_get x k d \<noteq> Inl JSONDecodeError"
  by (cases x) auto

lemma py_first_not_decode: "py_first x \<noteq> Inl JSONDecodeError"
  by (induction x rule: py_first.induct) auto

lemma token_try_body_decode_error:
  assumes "token_try_body w st now line = Inl (JSONDecodeError, st')"
  shows "st' = st \<and> loads w (drop 6 line) = Inl JSONDecodeError"
proof (cases "loads w (drop 6 line)")
  case (Inl e)
  with assms show ?thesis
    by (simp add: token_try_body_def)
next
  case (Inr chunk)
  show ?thesis
  proof (cases "py_contains ''token'' chunk")
    case (Inl e)
    with Inr assms py_contains_not_decode [of "''token''" chunk] show ?thesis
      by (simp add: token_try_body_def)
  next
    case c: (Inr b)
    show ?thesis
    proof (cases b)
      case False
      with Inr c assms show ?thesis
        by (simp add: token_try_body_def)
    next
      case True
      show ?thesis
      proof (cases "py_getitem chunk ''token''")
        case (Inl e)
        with Inr c True assms py_getitem_not_decode [of chunk "''token''"] show ?thesis
          by (simp add: token_try_body_def Let_def split: if_splits)
      next
        case t: (Inr token)
        show ?thesis
        proof (cases "py_getitem token ''text''")
          case (Inl e)
          with Inr c True t assms py_getitem_not_decode [of token "''text''"] show ?thesis
            by (simp add: token_try_body_def Let_def split: if_splits)
        next
          case x: (Inr v)
          with Inr c True t assms show ?thesis
            by (simp add: token_try_body_def Let_def split: if_splits)
        qed
      qed
    qed
  qed
qed

lemma token_event_decode_error:
  assumes "decode w bytes = Inr line" and "startswith line ''data: ''"
    and "loads w (drop 6 line) = Inl JSONDecodeError"
  shows "token_event w st (now, PayloadPart (Some bytes)) = Inr st"
  using assms by (simp add: token_event_def token_try_body_def)

lemma fragment_try_body_decode_error:
  assumes "fragment_try_body w s f = Inl (JSONDecodeError, s')"
  shows "s' = s \<and> loads w f = Inl JSONDecodeError"
  using assms py_get_not_decode py_first_not_decode
  by (auto simp: fragment_try_body_def split: sum.splits if_splits)

lemma drain_decode_error:
  assumes "find_sub (accumulated_data s) start_marker = Some start_idx"
    and "find_sub (accumulated_data s) end_marker = Some end_pos"
    and "loads w (py_slice (accumulated_data s) (start_idx + length start_marker)
           (end_pos + length end_marker)) = Inl JSONDecodeError"
  shows "drain w s =
     drain w (s\<lparr>accumulated_data := drop (end_pos + length end_marker) (accumulated_data s)\<rparr>)"
  using assms by (subst drain.simps) (simp add: fragment_try_body_def Let_def)

text \<open>
  C4. In each streaming loop, a fragment on which \<^verbatim>\<open>json.loads\<close> raises
  \<^verbatim>\<open>JSONDecodeError\<close> is skipped. In the token loop the event leaves the state
  (token count, first-token flag, time to first token, printed text) as it was, no
  exception leaves the loop there, and the loop goes on with the next event. In the
  loop of the NIM notebooks the \<^verbatim>\<open>while\<close> loop goes on with the data behind the
  fragment and the printed output unchanged. A \<^verbatim>\<open>JSONDecodeError\<close> that reaches either
  handler was raised before anything was counted or printed.
\<close>

theorem json_decode_error_skips_fragment:
  "(decode w bytes = Inr line \<and> startswith line ''data: '' \<and>
      loads w (drop 6 line) = Inl JSONDecodeError \<longrightarrow>
      token_event w st (now, PayloadPart (Some bytes)) = Inr st \<and>
      token_loop w st ((now, PayloadPart (Some bytes)) # evs) = token_loop w st evs) \<and>
   (token_try_body w st now line = Inl (JSONDecodeError, st') \<longrightarrow> st' = st) \<and>
   (find_sub (accumulated_data s) start_marker = Some start_idx \<and>
      find_sub (accumulated_data s) end_marker = Some end_pos \<and>
      loads w (py_slice (accumulated_data s) (start_idx + length start_marker)
        (end_pos + length end_marker)) = Inl JSONDecodeError \<longrightarrow>
      drain w s =
        drain w (s\<lparr>accumulated_data :=
                      drop (end_pos + length end_marker) (accumulated_data s)\<rparr>)) \<and>
   (fragment_try_body w s full_response = Inl (JSONDecodeError, s') \<longrightarrow> s' = s)"
proof (intro conjI impI)
  assume a: "decode w bytes = Inr line \<and> startswith line ''data: '' \<and>
      loads w (drop 6 line) = Inl JSONDecodeError"
  then show ev: "token_event w st (now, PayloadPart (Some bytes)) = Inr st"
    by (simp add: token_event_decode_error)
  then show "token_loop w st ((now, PayloadPart (Some bytes)) # evs) = token_loop w st evs"
    by simp
next
  assume "token_try_body w st now line = Inl (JSONDecodeError, st')"
  then show "st' = st"
    by (simp add: token_try_body_decode_error)
next
  assume "find_sub (accumulated_data s) start_marker = Some start_idx \<and>
      find_sub (accumulated_data s) end_marker = Some end_pos \<and>
      loads w (py_slice (accumulated_data s) (start_idx + length start_marker)
        (end_pos + length end_marker)) = Inl JSONDecodeError"
  then show "drain w s =
        drain w (s\<lparr>accumulated_data :=
                      drop (end_pos + length end_marker) (accumulated_data s)\<rparr>)"
    using drain_decode_error by blast
next
  assume "fragment_try_body w s full_response = Inl (JSONDecodeError, s')"
  then show "s' = s"
    by (simp add: fragment_try_body_decode_error)
qed

lemma find_start: "find_sub (''data:x'' @ end_marker) start_marker = Some 0"
  by (simp add: start_marker_def startswith_def)

lemma find_end: "find_sub (''data:x'' @ end_marker) end_marker = Some 6"
  by (simp add: end_marker_def startswith_def)

theorem json_decode_error_skips_fragment_witness:
  "token_loop strict_world token_init [(7, PayloadPart (Some ''data: oops''))] = Inr token_init \<and>
   token_try_body strict_world token_init 7 ''data: oops'' = Inl (JSONDecodeError, token_init) \<and>
   drain strict_world \<lparr>accumulated_data = ''data:x'' @ end_marker, printed_stream = []\<rparr> =
     Inr \<lparr>accumulated_data = [], printed_stream = []\<rparr> \<and>
   fragment_try_body strict_world stream_init (''x'' @ end_marker) =
     Inl (JSONDecodeError, stream_init)"
proof (intro conjI)
  have "decode strict_world ''data: oops'' = Inr ''data: oops'' \<and>
      startswith ''data: oops'' ''data: '' \<and>
      loads strict_world (drop 6 ''data: oops'') = Inl JSONDecodeError"
    by (simp add: strict_world_def startswith_def)
  then have "token_loop strict_world token_init [(7, PayloadPart (Some ''data: oops''))] =
      token_loop strict_world token_init []"
    using json_decode_error_skips_fragment
      [of strict_world "''data: oops''" "''data: oops''" token_init 7 "[]"]
    by blast
  then show "token_loop strict_world token_init [(7, PayloadPart (Some ''data: oops''))] =
      Inr token_init"
    by simp
next
  show "token_try_body strict_world token_init 7 ''data: oops'' =
      Inl (JSONDecodeError, token_init)"
    by (simp add: token_try_body_def strict_world_def)
next
  let ?s = "\<lparr>accumulated_data = ''data:x'' @ end_marker, printed_stream = []\<rparr>"
  have "loads strict_world (py_slice (accumulated_data ?s) (0 + length start_marker)
        (6 + length end_marker)) = Inl JSONDecodeError"
    by (simp add: strict_world_def py_slice_def start_marker_def end_marker_def)
  then have "drain strict_world ?s =
      drain strict_world (?s\<lparr>accumulated_data :=
                      drop (6 + length end_marker) (accumulated_data ?s)\<rparr>)"
    using json_decode_error_skips_fragment [where w = strict_world and s = ?s
        and start_idx = 0 and end_pos = 6] find_start find_end
    by simp
  also have "\<dots> = Inr \<lparr>accumulated_data = [], printed_stream = []\<rparr>"
    by (subst drain.simps) (simp add: start_marker_def)
  finally show "drain strict_world ?s = Inr \<lparr>accumulated_data = [], printed_stream = []\<rparr>" .
next
  show "fragment_try_body strict_world stream_init (''x'' @ end_marker) =
     Inl (JSONDecodeError, stream_init)"
    by (simp add: fragment_try_body_def strict_world_def end_marker_def)
qed

section \<open>Properties of the evaluation notebook\<close>

text \<open>
  C10. \<^verbatim>\<open>create_eval_files\<close> has no \<^verbatim>\<open>return\<close> statement: whatever the world, the
  files and the arguments, the call returns \<^verbatim>\<open>None\<close>, not the name of the output file,
  and the last line it prints is the completion message. So both variables the cell
  assigns, \<^verbatim>\<open>quantized_model_output_file\<close> and \<^verbatim>\<open>base_model_output_file\<close>, are bound
  to \<^verbatim>\<open>None\<close>.
\<close>

theorem create_eval_files_returns_None:
  "returned (create_eval_files w fs endpoint_name model_outputs_file input_file) = PyNone \<and>
   returned (create_eval_files w fs endpoint_name model_outputs_file input_file) \<noteq>
     PyStr model_outputs_file \<and>
   last (printed_eval (create_eval_files w fs endpoint_name model_outputs_file input_file)) =
     CreatedModelOutputsFile model_outputs_file \<and>
   quantized_model_output_file (eval_cell w fs quantized_endpoint base_endpoint) = PyNone \<and>
   base_model_output_file (eval_cell w fs quantized_endpoint base_endpoint) = PyNone"
proof -
  have r: "\<And>fs ep out inp. returned (create_eval_files w fs ep out inp) = PyNone"
    by (simp add: create_eval_files_def split: option.splits prod.splits)
  have l: "last (printed_eval (create_eval_files w fs endpoint_name model_outputs_file input_file)) =
     CreatedModelOutputsFile model_outputs_file"
    by (simp add: create_eval_files_def split: option.splits prod.splits)
  show ?thesis
    using r l by (simp add: eval_cell_def Let_def)
qed

section \<open>Exception handlers\<close>

text \<open>
  The claim C3 as it is written fails: with an input file of one question and an
  endpoint whose invocation raises a client error, the exception is raised inside
  \<^verbatim>\<open>create_eval_files\<close>, its handler prints it, and the function goes on to print the
  completion message and returns.
\<close>

theorem other_exceptions_propagate_counterexample:
  "eval_line strict_world ''ep'' (JObj [(''question'', JStr ''q'')]) =
     Inl (ClientError ''ValidationError'') \<and>
   printed_eval (create_eval_files strict_world sample_fs ''ep'' ''out.jsonl'' ''in.jsonl'') =
     [ErrorOccurred (ClientError ''ValidationError''), CreatedModelOutputsFile ''out.jsonl''] \<and>
   returned (create_eval_files strict_world sample_fs ''ep'' ''out.jsonl'' ''in.jsonl'') = PyNone"
  by (simp add: create_eval_files_def sample_fs_def eval_line_def strict_world_def
      create_payload_def lines_of_def)

lemma create_eval_files_catches:
  assumes "fs input_file = Some old_lines"
    and "eval_lines w ep (lines_of (fs(model_outputs_file \<mapsto> [])) input_file) [] = (Some e, out)"
  shows "printed_eval (create_eval_files w fs ep model_outputs_file input_file) =
     [ErrorOccurred e, CreatedModelOutputsFile model_outputs_file]"
  using assms by (simp add: create_eval_files_def)

lemma create_eval_files_missing_input:
  assumes "fs input_file = None"
  shows "printed_eval (create_eval_files w fs ep model_outputs_file input_file) =
     [ErrorOccurred (OSError input_file), CreatedModelOutputsFile model_outputs_file]"
  using assms by (simp add: create_eval_files_def)

lemma create_eval_files_same_file:
  assumes "fs name = Some old_lines"
  shows "printed_eval (create_eval_files w fs ep name name) = [CreatedModelOutputsFile name]"
    and "files (create_eval_files w fs ep name name) name = Some []"
  using assms by (simp_all add: create_eval_files_def lines_of_def)

lemma stream_loop_catches:
  assumes "stream_try_body w s ev = Inl (e, s')"
  shows "stream_loop w s (ev # evs) =
     stream_loop w (s'\<lparr>printed_stream := printed_stream s' @ [ErrorProcessingEvent e]\<rparr>) evs"
  using assms by (simp add: stream_event_def)

lemma token_event_propagates:
  assumes "decode w bytes = Inr line" and "startswith line ''data: ''"
    and "token_try_body w st now line = Inl (e, st')" and "e \<noteq> JSONDecodeError"
  shows "token_event w st (now, PayloadPart (Some bytes)) = Inl (e, st')"
  using assms by (simp add: token_event_def)

lemma token_event_outside_try:
  "token_event w st (now, OtherEvent) = Inl (KeyError ''PayloadPart'', st)"
  "token_event w st (now, PayloadPart None) = Inl (KeyError ''Bytes'', st)"
  "decode w bytes = Inl e \<Longrightarrow> token_event w st (now, PayloadPart (Some bytes)) = Inl (e, st)"
  by (simp_all add: token_event_def)

lemma token_loop_propagates:
  assumes "token_event w st tev = Inl (e, st')"
  shows "token_loop w st (tev # tevs) = Inl (e, st')"
  using assms by simp

lemma cleanup_cell_propagates:
  assumes "aws (cleanup_deregister ic) = Some e \<and> e \<noteq> ObjectNotFoundException \<or>
     (aws (cleanup_deregister ic) = None \<or>
        aws (cleanup_deregister ic) = Some ObjectNotFoundException) \<and>
     (aws (cleanup_delete_alarms ic) = Some e \<and> e \<noteq> ResourceNotFoundException \<or>
      (aws (cleanup_delete_alarms ic) = None \<or>
         aws (cleanup_delete_alarms ic) = Some ResourceNotFoundException) \<and>
      aws (cleanup_delete_scaling_policy ic) = Some e \<and> e \<noteq> ObjectNotFoundException)"
  shows "\<exists>c. autoscaling_cleanup_cell aws ic = Inl (e, c)"
  using assms
  by (auto simp: autoscaling_cleanup_cell_def try_call_ok try_call_raises)

lemma reupload_cell_fstring_raises:
  assumes "ns ''bucket'' = None"
  shows "reupload_cell ns =
     \<lparr>namespace = ns, shell_commands = [], raised = Some (NameError ''bucket'')\<rparr>"
  using assms by (simp add: reupload_cell_def new_uri_template_def)

lemma reupload_cell_swallows:
  assumes "ns ''bucket'' = Some bucket" and "ns ''new_prt_adapter_s3_uri'' = None"
  shows "vformat (namespace (reupload_cell ns)) reupload_command =
       Inl (NameError ''new_prt_adapter_s3_uri'')"
    and "raised (reupload_cell ns) = None"
  using assms
  by (simp_all add: reupload_cell_def new_uri_template_def reupload_command_def Let_def)

text \<open>
  C3, amended. Besides the not-found handlers of the clean-up cell and the
  \<^verbatim>\<open>JSONDecodeError\<close> handlers of the streaming loops, these catch an exception and go
  on. The \<^verbatim>\<open>except Exception\<close> of \<^verbatim>\<open>create_eval_files\<close> prints the exception, be it
  raised by opening the input or in the loop, and then the completion message. The
  \<^verbatim>\<open>except Exception\<close> around each event of the NIM loops prints the exception and goes
  on with the next event. The \<^verbatim>\<open>except ValueError\<close> of the role cell falls back to the
  look-up through IAM. In the re-upload cell the expansion of the shell line raises
  \<^verbatim>\<open>NameError\<close> for the unbound name, which IPython swallows.

  In these cells, what no handler matches leaves the cell: in the role cell an exception
  that is no \<^verbatim>\<open>ValueError\<close>; in the token loop an exception raised outside the
  \<^verbatim>\<open>try\<close> (a missing key of the event, the decoding of the bytes) and one raised in
  the \<^verbatim>\<open>try\<close> that is no \<^verbatim>\<open>JSONDecodeError\<close>; in the clean-up cell, at each of its
  three calls, an exception that is not the call's not-found exception; in the
  re-upload cell the \<^verbatim>\<open>NameError\<close> of the f-string when \<^verbatim>\<open>bucket\<close> is unbound.
\<close>

theorem exception_handlers:
  "(fs input_file = Some old_lines \<and>
      eval_lines w ep (lines_of (fs(model_outputs_file \<mapsto> [])) input_file) [] = (Some e, out) \<longrightarrow>
      printed_eval (create_eval_files w fs ep model_outputs_file input_file) =
        [ErrorOccurred e, CreatedModelOutputsFile model_outputs_file]) \<and>
   (fs input_file = None \<longrightarrow>
      printed_eval (create_eval_files w fs ep model_outputs_file input_file) =
        [ErrorOccurred (OSError input_file), CreatedModelOutputsFile model_outputs_file]) \<and>
   (stream_try_body w s ev = Inl (e, s') \<longrightarrow>
      stream_loop w s (ev # evs) =
        stream_loop w (s'\<lparr>printed_stream := printed_stream s' @ [ErrorProcessingEvent e]\<rparr>) evs) \<and>
   (is_value_error e \<longrightarrow> role_cell (Inl e) get_role_arn = get_role_arn) \<and>
   (ns ''bucket'' = Some bucket \<and> ns ''new_prt_adapter_s3_uri'' = None \<longrightarrow>
      vformat (namespace (reupload_cell ns)) reupload_command =
        Inl (NameError ''new_prt_adapter_s3_uri'') \<and>
      raised (reupload_cell ns) = None) \<and>
   (\<not> is_value_error e \<longrightarrow> role_cell (Inl e) get_role_arn = Inl e) \<and>
   token_event w st (now, OtherEvent) = Inl (KeyError ''PayloadPart'', st) \<and>
   token_event w st (now, PayloadPart None) = Inl (KeyError ''Bytes'', st) \<and>
   (decode w bytes = Inl e \<longrightarrow> token_event w st (now, PayloadPart (Some bytes)) = Inl (e, st)) \<and>
   (decode w bytes = Inr line \<and> startswith line ''data: '' \<and>
      token_try_body w st now line = Inl (e, st') \<and> e \<noteq> JSONDecodeError \<longrightarrow>
      token_event w st (now, PayloadPart (Some bytes)) = Inl (e, st')) \<and>
   (token_event w st tev = Inl (e, st') \<longrightarrow> token_loop w st (tev # tevs) = Inl (e, st')) \<and>
   (aws (cleanup_deregister ic) = Some e \<and> e \<noteq> ObjectNotFoundException \<longrightarrow>
      (\<exists>c. autoscaling_cleanup_cell aws ic = Inl (e, c))) \<and>
   ((aws (cleanup_deregister ic) = None \<or>
       aws (cleanup_deregister ic) = Some ObjectNotFoundException) \<and>
    aws (cleanup_delete_alarms ic) = Some e \<and> e \<noteq> ResourceNotFoundException \<longrightarrow>
      (\<exists>c. autoscaling_cleanup_cell aws ic = Inl (e, c))) \<and>
   ((aws (cleanup_deregister ic) = None \<or>
       aws (cleanup_deregister ic) = Some ObjectNotFoundException) \<and>
    (aws (cleanup_delete_alarms ic) = None \<or>
       aws (cleanup_delete_alarms ic) = Some ResourceNotFoundException) \<and>
    aws (cleanup_delete_scaling_policy ic) = Some e \<and> e \<noteq> ObjectNotFoundException \<longrightarrow>
      (\<exists>c. autoscaling_cleanup_cell aws ic = Inl (e, c))) \<and>
   (ns ''bucket'' = None \<longrightarrow> raised (reupload_cell ns) = Some (NameError ''bucket''))"
proof (intro conjI impI)
  assume "fs input_file = Some old_lines \<and>
      eval_lines w ep (lines_of (fs(model_outputs_file \<mapsto> [])) input_file) [] = (Some e, out)"
  then show "printed_eval (create_eval_files w fs ep model_outputs_file input_file) =
        [ErrorOccurred e, CreatedModelOutputsFile model_outputs_file]"
    using create_eval_files_catches by blast
next
  assume "fs input_file = None"
  then show "printed_eval (create_eval_files w fs ep model_outputs_file input_file) =
        [ErrorOccurred (OSError input_file), CreatedModelOutputsFile model_outputs_file]"
    by (rule create_eval_files_missing_input)
next
  assume "stream_try_body w s ev = Inl (e, s')"
  then show "stream_loop w s (ev # evs) =
        stream_loop w (s'\<lparr>printed_stream := printed_stream s' @ [ErrorProcessingEvent e]\<rparr>) evs"
    by (rule stream_loop_catches)
next
  assume "is_value_error e"
  then show "role_cell (Inl e) get_role_arn = get_role_arn"
    by (simp add: role_cell_def)
next
  assume a: "ns ''bucket'' = Some bucket \<and> ns ''new_prt_adapter_s3_uri'' = None"
  then show "vformat (namespace (reupload_cell ns)) reupload_command =
        Inl (NameError ''new_prt_adapter_s3_uri'')"
    using reupload_cell_swallows(1) by blast
  from a show "raised (reupload_cell ns) = None"
    using reupload_cell_swallows(2) by blast
next
  assume "\<not> is_value_error e"
  then show "role_cell (Inl e) get_role_arn = Inl e"
    by (simp add: role_cell_def)
next
  show "token_event w st (now, OtherEvent) = Inl (KeyError ''PayloadPart'', st)"
    by (rule token_event_outside_try(1))
next
  show "token_event w st (now, PayloadPart None) = Inl (KeyError ''Bytes'', st)"
    by (rule token_event_outside_try(2))
next
  assume "decode w bytes = Inl e"
  then show "token_event w st (now, PayloadPart (Some bytes)) = Inl (e, st)"
    by (rule token_event_outside_try(3))
next
  assume "decode w bytes = Inr line \<and> startswith line ''data: '' \<and>
      token_try_body w st now line = Inl (e, st') \<and> e \<noteq> JSONDecodeError"
  then show "token_event w st (now, PayloadPart (Some bytes)) = Inl (e, st')"
    using token_event_propagates by blast
next
  assume "token_event w st tev = Inl (e, st')"
  then show "token_loop w st (tev # tevs) = Inl (e, st')"
    by (rule token_loop_propagates)
next
  assume "aws (cleanup_deregister ic) = Some e \<and> e \<noteq> ObjectNotFoundException"
  then show "\<exists>c. autoscaling_cleanup_cell aws ic = Inl (e, c)"
    using cleanup_cell_propagates [of aws ic e] by blast
next
  assume "(aws (cleanup_deregister ic) = None \<or>
       aws (cleanup_deregister ic) = Some ObjectNotFoundException) \<and>
    aws (cleanup_delete_alarms ic) = Some e \<and> e \<noteq> ResourceNotFoundException"
  then show "\<exists>c. autoscaling_cleanup_cell aws ic = Inl (e, c)"
    using cleanup_cell_propagates [of aws ic e] by blast
next
  assume "(aws (cleanup_deregister ic) = None \<or>
       aws (cleanup_deregister ic) = Some ObjectNotFoundException) \<and>
    (aws (cleanup_delete_alarms ic) = None \<or>
       aws (cleanup_delete_alarms ic) = Some ResourceNotFoundException) \<and>
    aws (cleanup_delete_scaling_policy ic) = Some e \<and> e \<noteq> ObjectNotFoundException"
  then show "\<exists>c. autoscaling_cleanup_cell aws ic = Inl (e, c)"
    using cleanup_cell_propagates [of aws ic e] by blast
next
  assume "ns ''bucket'' = None"
  then show "raised (reupload_cell ns) = Some (NameError ''bucket'')"
    by (simp add: reupload_cell_fstring_raises)
qed

theorem exception_handlers_witness:
  "printed_eval (create_eval_files strict_world sample_fs ''ep'' ''out.jsonl'' ''in.jsonl'') =
     [ErrorOccurred (ClientError ''ValidationError''), CreatedModelOutputsFile ''out.jsonl''] \<and>
   printed_eval (create_eval_files strict_world sample_fs ''ep'' ''out.jsonl'' ''none.jsonl'') =
     [ErrorOccurred (OSError ''none.jsonl''), CreatedModelOutputsFile ''out.jsonl''] \<and>
   stream_loop garbled_world stream_init [PayloadPart (Some ''x'')] =
     \<lparr>accumulated_data = [], printed_stream = [ErrorProcessingEvent UnicodeDecodeError]\<rparr> \<and>
   role_cell (Inl (ValueError ''no role'')) (Inr ''arn:aws:iam::1:role/r'') =
     Inr ''arn:aws:iam::1:role/r'' \<and>
   raised (reupload_cell sample_namespace) = None \<and>
   role_cell (Inl (ClientError ''AccessDenied'')) (Inr ''arn:aws:iam::1:role/r'') =
     Inl (ClientError ''AccessDenied'') \<and>
   token_loop garbled_world token_init [(3, PayloadPart (Some ''x''))] =
     Inl (UnicodeDecodeError, token_init) \<and>
   token_loop garbled_world token_init [(3, PayloadPart (Some ''data: 1''))] =
     Inl (TypeError, token_init) \<and>
   (\<exists>c. autoscaling_cleanup_cell (\<lambda>r. Some (ClientError ''AccessDenied'')) ''ic'' =
      Inl (ClientError ''AccessDenied'', c)) \<and>
   (\<exists>c. autoscaling_cleanup_cell
      (\<lambda>r. case r of DeleteAlarms ns \<Rightarrow> Some (ClientError ''Throttling'') | _ \<Rightarrow> None) ''ic'' =
      Inl (ClientError ''Throttling'', c)) \<and>
   (\<exists>c. autoscaling_cleanup_cell
      (\<lambda>r. case r of DeleteScalingPolicy n k \<Rightarrow> Some (ClientError ''Validation'') | _ \<Rightarrow> None)
      ''ic'' = Inl (ClientError ''Validation'', c)) \<and>
   raised (reupload_cell Map.empty) = Some (NameError ''bucket'')"
proof (intro conjI)
  have "sample_fs ''in.jsonl'' = Some [Inr (JObj [(''question'', JStr ''q'')])] \<and>
      eval_lines strict_world ''ep''
        (lines_of (sample_fs(''out.jsonl'' \<mapsto> [])) ''in.jsonl'') [] =
        (Some (ClientError ''ValidationError''), [])"
    by (simp add: sample_fs_def eval_line_def strict_world_def create_payload_def lines_of_def)
  then show "printed_eval (create_eval_files strict_world sample_fs ''ep'' ''out.jsonl'' ''in.jsonl'') =
     [ErrorOccurred (ClientError ''ValidationError''), CreatedModelOutputsFile ''out.jsonl'']"
    using exception_handlers
      [where fs = "sample_fs" and input_file = "''in.jsonl''" and
        old_lines = "[Inr (JObj [(''question'', JStr ''q'')])]" and w = "strict_world" and
        ep = "''ep''" and model_outputs_file = "''out.jsonl''" and
        e = "ClientError ''ValidationError''" and out = "[]" and s = "stream_init" and
        ev = "OtherEvent" and s' = "stream_init" and evs = "[]" and
        get_role_arn = "Inr ''arn:aws:iam::1:role/r''" and ns = "Map.empty" and
        bucket = "''b''" and st = "token_init" and now = "3" and bytes = "''x''" and
        line = "''x''" and st' = "token_init" and tev = "(3, OtherEvent)" and
        tevs = "[]" and aws = "\<lambda>r. None" and ic = "''ic''"]
    by blast
next
  have "sample_fs ''none.jsonl'' = None"
    by (simp add: sample_fs_def)
  then show "printed_eval (create_eval_files strict_world sample_fs ''ep'' ''out.jsonl'' ''none.jsonl'') =
     [ErrorOccurred (OSError ''none.jsonl''), CreatedModelOutputsFile ''out.jsonl'']"
    using exception_handlers
      [where fs = "sample_fs" and input_file = "''none.jsonl''" and old_lines = "[]" and
        w = "strict_world" and ep = "''ep''" and model_outputs_file = "''out.jsonl''" and
        e = "TypeError" and out = "[]" and s = "stream_init" and ev = "OtherEvent" and
        s' = "stream_init" and evs = "[]" and
        get_role_arn = "Inr ''arn:aws:iam::1:role/r''" and ns = "Map.empty" and
        bucket = "''b''" and st = "token_init" and now = "3" and bytes = "''x''" and
        line = "''x''" and st' = "token_init" and tev = "(3, OtherEvent)" and
        tevs = "[]" and aws = "\<lambda>r. None" and ic = "''ic''"]
    by blast
next
  have "stream_try_body garbled_world stream_init (PayloadPart (Some ''x'')) =
      Inl (UnicodeDecodeError, stream_init)"
    by (simp add: stream_try_body_def event_bytes_def garbled_world_def)
  then have "stream_loop garbled_world stream_init [PayloadPart (Some ''x'')] =
      stream_loop garbled_world
        (stream_init\<lparr>printed_stream :=
           printed_stream stream_init @ [ErrorProcessingEvent UnicodeDecodeError]\<rparr>) []"
    using exception_handlers
      [where fs = "sample_fs" and input_file = "''in.jsonl''" and old_lines = "[]" and
        w = "garbled_world" and ep = "''ep''" and model_outputs_file = "''out.jsonl''" and
        e = "UnicodeDecodeError" and out = "[]" and s = "stream_init" and
        ev = "PayloadPart (Some ''x'')" and s' = "stream_init" and evs = "[]" and
        get_role_arn = "Inr ''arn:aws:iam::1:role/r''" and ns = "Map.empty" and
        bucket = "''b''" and st = "token_init" and now = "3" and bytes = "''x''" and
        line = "''x''" and st' = "token_init" and tev = "(3, OtherEvent)" and
        tevs = "[]" and aws = "\<lambda>r. None" and ic = "''ic''"]
    by blast
  then show "stream_loop garbled_world stream_init [PayloadPart (Some ''x'')] =
     \<lparr>accumulated_data = [], printed_stream = [ErrorProcessingEvent UnicodeDecodeError]\<rparr>"
    by (simp add: stream_init_def)
next
  have "is_value_error (ValueError ''no role'')"
    by simp
  then show "role_cell (Inl (ValueError ''no role'')) (Inr ''arn:aws:iam::1:role/r'') =
     Inr ''arn:aws:iam::1:role/r''"
    using exception_handlers
      [where fs = "sample_fs" and input_file = "''in.jsonl''" and old_lines = "[]" and
        w = "strict_world" and ep = "''ep''" and model_outputs_file = "''out.jsonl''" and
        e = "ValueError ''no role''" and out = "[]" and s = "stream_init" and
        ev = "OtherEvent" and s' = "stream_init" and evs = "[]" and
        get_role_arn = "Inr ''arn:aws:iam::1:role/r''" and ns = "Map.empty" and
        bucket = "''b''" and st = "token_init" and now = "3" and bytes = "''x''" and
        line = "''x''" and st' = "token_init" and tev = "(3, OtherEvent)" and
        tevs = "[]" and aws = "\<lambda>r. None" and ic = "''ic''"]
    by blast
next
  have "sample_namespace ''bucket'' = Some ''<bucket>'' \<and>
      sample_namespace ''new_prt_adapter_s3_uri'' = None"
    by (simp add: sample_namespace_def bound_names_def)
  then show "raised (reupload_cell sample_namespace) = None"
    using exception_handlers
      [where fs = "sample_fs" and input_file = "''in.jsonl''" and old_lines = "[]" and
        w = "strict_world" and ep = "''ep''" and model_outputs_file = "''out.jsonl''" and
        e = "TypeError" and out = "[]" and s = "stream_init" and ev = "OtherEvent" and
        s' = "stream_init" and evs = "[]" and
        get_role_arn = "Inr ''arn:aws:iam::1:role/r''" and ns = "sample_namespace" and
        bucket = "''<bucket>''" and st = "token_init" and now = "3" and bytes = "''x''" and
        line = "''x''" and st' = "token_init" and tev = "(3, OtherEvent)" and
        tevs = "[]" and aws = "\<lambda>r. None" and ic = "''ic''"]
    by blast
next
  have "\<not> is_value_error (ClientError ''AccessDenied'')"
    by simp
  then show "role_cell (Inl (ClientError ''AccessDenied'')) (Inr ''arn:aws:iam::1:role/r'') =
     Inl (ClientError ''AccessDenied'')"
    using exception_handlers
      [where fs = "sample_fs" and input_file = "''in.jsonl''" and old_lines = "[]" and
        w = "strict_world" and ep = "''ep''" and model_outputs_file = "''out.jsonl''" and
        e = "ClientError ''AccessDenied''" and out = "[]" and s = "stream_init" and
        ev = "OtherEvent" and s' = "stream_init" and evs = "[]" and
        get_role_arn = "Inr ''arn:aws:iam::1:role/r''" and ns = "Map.empty" and
        bucket = "''b''" and st = "token_init" and now = "3" and bytes = "''x''" and
        line = "''x''" and st' = "token_init" and tev = "(3, OtherEvent)" and
        tevs = "[]" and aws = "\<lambda>r. None" and ic = "''ic''"]
    by blast
next
  have "decode garbled_world ''x'' = Inl UnicodeDecodeError"
    by (simp add: garbled_world_def)
  then have "token_event garbled_world token_init (3, PayloadPart (Some ''x'')) =
      Inl (UnicodeDecodeError, token_init)"
    using exception_handlers
      [where fs = "sample_fs" and input_file = "''in.jsonl''" and old_lines = "[]" and
        w = "garbled_world" and ep = "''ep''" and model_outputs_file = "''out.jsonl''" and
        e = "UnicodeDecodeError" and out = "[]" and s = "stream_init" and
        ev = "OtherEvent" and s' = "stream_init" and evs = "[]" and
        get_role_arn = "Inr ''arn:aws:iam::1:role/r''" and ns = "Map.empty" and
        bucket = "''b''" and st = "token_init" and now = "3" and bytes = "''x''" and
        line = "''x''" and st' = "token_init" and tev = "(3, OtherEvent)" and
        tevs = "[]" and aws = "\<lambda>r. None" and ic = "''ic''"]
    by blast
  then show "token_loop garbled_world token_init [(3, PayloadPart (Some ''x''))] =
     Inl (UnicodeDecodeError, token_init)"
    using exception_handlers
      [where fs = "sample_fs" and input_file = "''in.jsonl''" and old_lines = "[]" and
        w = "garbled_world" and ep = "''ep''" and model_outputs_file = "''out.jsonl''" and
        e = "UnicodeDecodeError" and out = "[]" and s = "stream_init" and
        ev = "OtherEvent" and s' = "stream_init" and evs = "[]" and
        get_role_arn = "Inr ''arn:aws:iam::1:role/r''" and ns = "Map.empty" and
        bucket = "''b''" and st = "token_init" and now = "3" and bytes = "''x''" and
        line = "''x''" and st' = "token_init" and tev = "(3, PayloadPart (Some ''x''))" and
        tevs = "[]" and aws = "\<lambda>r. None" and ic = "''ic''"]
    by blast
next
  have "decode garbled_world ''data: 1'' = Inr ''data: 1'' \<and> startswith ''data: 1'' ''data: '' \<and>
      token_try_body garbled_world token_init 3 ''data: 1'' = Inl (TypeError, token_init) \<and>
      TypeError \<noteq> JSONDecodeError"
    by (simp add: garbled_world_def startswith_def token_try_body_def)
  then have "token_event garbled_world token_init (3, PayloadPart (Some ''data: 1'')) =
      Inl (TypeError, token_init)"
    using exception_handlers
      [where fs = "sample_fs" and input_file = "''in.jsonl''" and old_lines = "[]" and
        w = "garbled_world" and ep = "''ep''" and model_outputs_file = "''out.jsonl''" and
        e = "TypeError" and out = "[]" and s = "stream_init" and ev = "OtherEvent" and
        s' = "stream_init" and evs = "[]" and
        get_role_arn = "Inr ''arn:aws:iam::1:role/r''" and ns = "Map.empty" and
        bucket = "''b''" and st = "token_init" and now = "3" and bytes = "''data: 1''" and
        line = "''data: 1''" and st' = "token_init" and tev = "(3, OtherEvent)" and
        tevs = "[]" and aws = "\<lambda>r. None" and ic = "''ic''"]
    by blast
  then show "token_loop garbled_world token_init [(3, PayloadPart (Some ''data: 1''))] =
     Inl (TypeError, token_init)"
    using exception_handlers
      [where fs = "sample_fs" and input_file = "''in.jsonl''" and old_lines = "[]" and
        w = "garbled_world" and ep = "''ep''" and model_outputs_file = "''out.jsonl''" and
        e = "TypeError" and out = "[]" and s = "stream_init" and ev = "OtherEvent" and
        s' = "stream_init" and evs = "[]" and
        get_role_arn = "Inr ''arn:aws:iam::1:role/r''" and ns = "Map.empty" and
        bucket = "''b''" and st = "token_init" and now = "3" and bytes = "''x''" and
        line = "''x''" and st' = "token_init" and
        tev = "(3, PayloadPart (Some ''data: 1''))" and tevs = "[]" and
        aws = "\<lambda>r. None" and ic = "''ic''"]
    by blast
next
  have "(\<lambda>r. Some (ClientError ''AccessDenied'')) (cleanup_deregister ''ic'') =
      Some (ClientError ''AccessDenied'') \<and> ClientError ''AccessDenied'' \<noteq> ObjectNotFoundException"
    by simp
  then show "\<exists>c. autoscaling_cleanup_cell (\<lambda>r. Some (ClientError ''AccessDenied'')) ''ic'' =
      Inl (ClientError ''AccessDenied'', c)"
    using exception_handlers
      [where fs = "sample_fs" and input_file = "''in.jsonl''" and old_lines = "[]" and
        w = "strict_world" and ep = "''ep''" and model_outputs_file = "''out.jsonl''" and
        e = "ClientError ''AccessDenied''" and out = "[]" and s = "stream_init" and
        ev = "OtherEvent" and s' = "stream_init" and evs = "[]" and
        get_role_arn = "Inr ''arn:aws:iam::1:role/r''" and ns = "Map.empty" and
        bucket = "''b''" and st = "token_init" and now = "3" and bytes = "''x''" and
        line = "''x''" and st' = "token_init" and tev = "(3, OtherEvent)" and
        tevs = "[]" and aws = "\<lambda>r. Some (ClientError ''AccessDenied'')" and
        ic = "''ic''"]
    by blast
next
  let ?aws = "\<lambda>r. case r of DeleteAlarms ns \<Rightarrow> Some (ClientError ''Throttling'') | _ \<Rightarrow> None"
  have "(?aws (cleanup_deregister ''ic'') = None \<or>
       ?aws (cleanup_deregister ''ic'') = Some ObjectNotFoundException) \<and>
      ?aws (cleanup_delete_alarms ''ic'') = Some (ClientError ''Throttling'') \<and>
      ClientError ''Throttling'' \<noteq> ResourceNotFoundException"
    by (simp add: cleanup_deregister_def cleanup_delete_alarms_def)
  then show "\<exists>c. autoscaling_cleanup_cell ?aws ''ic'' = Inl (ClientError ''Throttling'', c)"
    using exception_handlers
      [where fs = "sample_fs" and input_file = "''in.jsonl''" and old_lines = "[]" and
        w = "strict_world" and ep = "''ep''" and model_outputs_file = "''out.jsonl''" and
        e = "ClientError ''Throttling''" and out = "[]" and s = "stream_init" and
        ev = "OtherEvent" and s' = "stream_init" and evs = "[]" and
        get_role_arn = "Inr ''arn:aws:iam::1:role/r''" and ns = "Map.empty" and
        bucket = "''b''" and st = "token_init" and now = "3" and bytes = "''x''" and
        line = "''x''" and st' = "token_init" and tev = "(3, OtherEvent)" and
        tevs = "[]" and
        aws = "\<lambda>r. case r of DeleteAlarms ns \<Rightarrow> Some (ClientError ''Throttling'') | _ \<Rightarrow> None" and
        ic = "''ic''"]
    by blast
next
  let ?aws = "\<lambda>r. case r of DeleteScalingPolicy n k \<Rightarrow> Some (ClientError ''Validation'') | _ \<Rightarrow> None"
  have "(?aws (cleanup_deregister ''ic'') = None \<or>
       ?aws (cleanup_deregister ''ic'') = Some ObjectNotFoundException) \<and>
      (?aws (cleanup_delete_alarms ''ic'') = None \<or>
       ?aws (cleanup_delete_alarms ''ic'') = Some ResourceNotFoundException) \<and>
      ?aws (cleanup_delete_scaling_policy ''ic'') = Some (ClientError ''Validation'') \<and>
      ClientError ''Validation'' \<noteq> ObjectNotFoundException"
    by (simp add: cleanup_deregister_def cleanup_delete_alarms_def
        cleanup_delete_scaling_policy_def)
  then show "\<exists>c. autoscaling_cleanup_cell ?aws ''ic'' = Inl (ClientError ''Validation'', c)"
    using exception_handlers
      [where fs = "sample_fs" and input_file = "''in.jsonl''" and old_lines = "[]" and
        w = "strict_world" and ep = "''ep''" and model_outputs_file = "''out.jsonl''" and
        e = "ClientError ''Validation''" and out = "[]" and s = "stream_init" and
        ev = "OtherEvent" and s' = "stream_init" and evs = "[]" and
        get_role_arn = "Inr ''arn:aws:iam::1:role/r''" and ns = "Map.empty" and
        bucket = "''b''" and st = "token_init" and now = "3" and bytes = "''x''" and
        line = "''x''" and st' = "token_init" and tev = "(3, OtherEvent)" and
        tevs = "[]" and
        aws = "\<lambda>r. case r of DeleteScalingPolicy n k \<Rightarrow> Some (ClientError ''Validation'') | _ \<Rightarrow> None" and
        ic = "''ic''"]
    by blast
next
  have "Map.empty ''bucket'' = (None :: string option)"
    by simp
  then show "raised (reupload_cell Map.empty) = Some (NameError ''bucket'')"
    using exception_handlers
      [where fs = "sample_fs" and input_file = "''in.jsonl''" and old_lines = "[]" and
        w = "strict_world" and ep = "''ep''" and model_outputs_file = "''out.jsonl''" and
        e = "TypeError" and out = "[]" and s = "stream_init" and ev = "OtherEvent" and
        s' = "stream_init" and evs = "[]" and
        get_role_arn = "Inr ''arn:aws:iam::1:role/r''" and ns = "Map.empty" and
        bucket = "''b''" and st = "token_init" and now = "3" and bytes = "''x''" and
        line = "''x''" and st' = "token_init" and tev = "(3, OtherEvent)" and
        tevs = "[]" and aws = "\<lambda>r. None" and ic = "''ic''"]
    by blast
qed

section \<open>Creation and clean-up order\<close>



text \<open>
  The claim C7 as it is written fails on the evaluation notebook: its two deploy calls
  create two endpoints, with a model and an endpoint configuration each, and no call
  deletes anything.
\<close>

theorem torn_down_counterexample:
  "quantized_eval_nb \<in> set notebooks \<and>
   \<not> torn_down quantized_eval_nb \<and>
   created quantized_eval_nb =
     [Named Endpoint ''base_predictor'', Named Endpoint ''quantized_predictor''] \<and>
   all_deleted quantized_eval_nb = []"
  by (simp add: torn_down_def leftover_def quantized_eval_nb_def notebooks_def)

text \<open>
  C7, amended. The multi-adapter notebook deletes every resource it created. The
  Llama 3.3 notebook deletes the endpoint and the endpoint configuration of its deploy
  call and leaves the model. The scale-to-zero notebook deletes the endpoint
  configuration, the endpoint, the inference component, the scalable target and the
  alarm, and has no delete call for the model of its deploy call nor for the target
  tracking policy; nothing is said here of its step scaling policy. The NIM notebooks
  delete the model, the endpoint configuration and the endpoint. In these notebooks no
  create call follows the first delete call. The evaluation notebook leaves everything
  its two deploy calls created and has no closing part.
\<close>

theorem teardown_coverage:
  "torn_down multi_adapter_nb \<and>
   leftover llama33_nb = [Named Model ''huggingface_model''] \<and>
   filter (\<lambda>r. r \<noteq> step_policy) (leftover scale_to_zero_nb) =
     [Named Model ''final_model'',
      Scaled ScalingPolicy ''target_tracking_policy_name''
        ''sagemaker:inference-component:DesiredCopyCount''] \<and>
   leftover quantized_eval_nb =
     [Named Model ''base_model'', Named EndpointConfig ''base_predictor'',
      Named Endpoint ''base_predictor'', Named Model ''optimized_model'',
      Named EndpointConfig ''quantized_predictor'', Named Endpoint ''quantized_predictor''] \<and>
   all_deleted nim_nb =
     [Named Model ''sm_model_name'', Named EndpointConfig ''endpoint_config_name'',
      Named Endpoint ''endpoint_name''] \<and>
   created (closing_calls multi_adapter_nb) = [] \<and>
   created (closing_calls llama33_nb) = [] \<and>
   created (closing_calls scale_to_zero_nb) = [] \<and>
   created (closing_calls nim_nb) = [] \<and>
   closing_calls quantized_eval_nb = []"
  by (simp add: torn_down_def leftover_def multi_adapter_nb_def llama33_nb_def
      scale_to_zero_nb_def quantized_eval_nb_def nim_nb_def closing_calls_def
      step_policy_def scalable_dimension_def)

text \<open>
  The claim C9 as it is written fails: run in a namespace that binds every name of the
  earlier cells, the cell raises nothing. The shell is handed the command with the
  field still in braces.
\<close>

theorem reupload_cell_counterexample:
  "raised (reupload_cell sample_namespace) = None \<and>
   raised (reupload_cell sample_namespace) \<noteq> Some (NameError ''new_prt_adapter_s3_uri'') \<and>
   shell_commands (reupload_cell sample_namespace) =
     [''aws s3 cp ./adapters/ectsum-adapter.tar.gz {new_prt_adapter_s3_uri}''] \<and>
   sample_namespace ''new_prt_adapter_s3_uri'' = None \<and>
   sample_namespace ''bucket'' = Some ''<bucket>''"
  by (simp add: reupload_cell_def sample_namespace_def new_uri_template_def
      reupload_command_def var_expand_def bound_names_def Let_def)

text \<open>
  C9, amended. The shell command of the re-upload cell names
  \<^verbatim>\<open>new_prt_adapter_s3_uri\<close>, which no cell binds; the notebook binds
  \<^verbatim>\<open>new_ectsum_adapter_s3_uri\<close>. Whenever \<^verbatim>\<open>bucket\<close> is bound and
  \<^verbatim>\<open>new_prt_adapter_s3_uri\<close> is not, the cell raises no exception: it binds
  \<^verbatim>\<open>new_ectsum_adapter_s3_uri\<close> and hands the shell the command as it is written, the
  field unexpanded.
\<close>

theorem reupload_cell_unbound_name:
  "(ns ''bucket'' = Some bucket \<and> ns ''new_prt_adapter_s3_uri'' = None \<longrightarrow>
      reupload_cell ns =
        \<lparr>namespace = ns(''new_ectsum_adapter_s3_uri'' \<mapsto>
             ''s3://'' @ bucket @ ''/lora-adapters/new-ectsum-adapter.tar.gz''),
         shell_commands =
           [''aws s3 cp ./adapters/ectsum-adapter.tar.gz {new_prt_adapter_s3_uri}''],
         raised = None\<rparr>) \<and>
   ''new_prt_adapter_s3_uri'' \<notin> set bound_names \<and>
   ''new_ectsum_adapter_s3_uri'' \<in> set bound_names"
  by (simp add: reupload_cell_def new_uri_template_def reupload_command_def var_expand_def
      bound_names_def Let_def)

theorem reupload_cell_unbound_name_witness:
  "reupload_cell sample_namespace =
     \<lparr>namespace = sample_namespace(''new_ectsum_adapter_s3_uri'' \<mapsto>
          ''s3://<bucket>/lora-adapters/new-ectsum-adapter.tar.gz''),
      shell_commands =
        [''aws s3 cp ./adapters/ectsum-adapter.tar.gz {new_prt_adapter_s3_uri}''],
      raised = None\<rparr>"
proof -
  have "sample_namespace ''bucket'' = Some ''<bucket>'' \<and>
      sample_namespace ''new_prt_adapter_s3_uri'' = None"
    by (simp add: sample_namespace_def bound_names_def)
  then show ?thesis
    using reupload_cell_unbound_name [of sample_namespace "''<bucket>''"] by simp
qed

end
